theory Spec2Isabelle
  imports Complex_Main "HOL-Library.AList" "HOL-Library.Sublist"
begin

section \<open>Python values used by the pipeline\<close>

text \<open>
  Strings are Python \<open>str\<close> values restricted to the 256 code points of Latin-1, one
  \<open>char\<close> per code point, so \<open>length\<close> is Python's \<open>len\<close>.  Floats are modelled as
  exact reals.  Exceptions are values of the type \<open>error\<close>; a collaborator that may raise
  returns \<open>error + 'a\<close>.
\<close>

datatype error =
    RuntimeError string
  | ValueError
  | TypeError
  | ZeroDivisionError
  | AttributeError
  | ValidationError
  | JSONDecodeError
  | TesseractNotFoundError
  | CollaboratorError string

datatype pyval = PNone | PBool bool | PInt int | PFloat real | PStr string

text \<open>\<open>str.isspace\<close> on one code point below 256 (what \<open>strip()\<close> and \<open>split()\<close> use).\<close>

definition isspace :: "char \<Rightarrow> bool" where
  "isspace c = ((of_char c :: nat) \<in> {9, 10, 11, 12, 13, 28, 29, 30, 31, 32, 133, 160})"

definition strip :: "string \<Rightarrow> string" where
  "strip s = rev (dropWhile isspace (rev (dropWhile isspace s)))"

text \<open>\<open>str.lower\<close>: the upper-case letters below 256 are A-Z and U+00C0-U+00DE without
  the multiplication sign U+00D7; each has its lower-case form 32 code points higher.\<close>

definition lower_char :: "char \<Rightarrow> char" where
  "lower_char c =
     (let n = (of_char c :: nat)
      in if (65 \<le> n \<and> n \<le> 90) \<or> (192 \<le> n \<and> n \<le> 222 \<and> n \<noteq> 215)
         then char_of (n + 32) else c)"

definition lower :: "string \<Rightarrow> string" where
  "lower s = map lower_char s"

text \<open>\<open>k in t\<close> on strings: \<open>k\<close> occurs in \<open>t\<close> as a contiguous substring.\<close>

fun str_in :: "string \<Rightarrow> string \<Rightarrow> bool" where
  "str_in k [] = (k = [])"
| "str_in k (c # cs) = (prefix k (c # cs) \<or> str_in k cs)"

text \<open>\<open>s.split()\<close>: the maximal runs of non-whitespace characters, in order.  The
  first argument is the token being read, reversed.\<close>

fun split_ws :: "string \<Rightarrow> string \<Rightarrow> string list" where
  "split_ws acc [] = (if acc = [] then [] else [rev acc])"
| "split_ws acc (c # cs) =
     (if isspace c
      then (if acc = [] then split_ws [] cs else rev acc # split_ws [] cs)
      else split_ws (c # acc) cs)"

definition py_split :: "string \<Rightarrow> string list" where
  "py_split s = split_ws [] s"

text \<open>\<open>path.split("/")[-1]\<close>: what follows the last slash (the whole string if none).\<close>

definition last_segment :: "string \<Rightarrow> string" where
  "last_segment path = rev (takeWhile (\<lambda>c. c \<noteq> CHR ''/'') (rev path))"

text \<open>Truth value of a Python object, as \<open>not x\<close> and \<open>x or y\<close> test it.\<close>

fun truthy :: "pyval \<Rightarrow> bool" where
  "truthy PNone = False"
| "truthy (PBool b) = b"
| "truthy (PInt i) = (i \<noteq> 0)"
| "truthy (PFloat r) = (r \<noteq> 0)"
| "truthy (PStr s) = (s \<noteq> [])"

section \<open>Documents\<close>

text \<open>A langchain \<open>Document\<close>: the text and a metadata dictionary.\<close>

record document =
  page_content :: string
  metadata :: "string \<rightharpoonup> pyval"

text \<open>\<open>d.get(k, default)\<close>.\<close>

definition dict_get :: "(string \<rightharpoonup> pyval) \<Rightarrow> string \<Rightarrow> pyval \<Rightarrow> pyval" where
  "dict_get m k dflt = (case m k of None \<Rightarrow> dflt | Some v \<Rightarrow> v)"

section \<open>OCR fallback (\<open>ocr/ocr_engine.py\<close>)\<close>

text \<open>
  The collaborators of \<open>OCREngine\<close>: \<open>fitz.open\<close>, the rendering of one page
  (\<open>load_page\<close>, \<open>get_pixmap\<close>, \<open>Image.frombytes\<close>) and \<open>pytesseract.image_to_string\<close>.
  Each may raise.
\<close>

record ('pdf, 'img) ocr_lib =
  fitz_open :: "string \<Rightarrow> error + 'pdf"
  render_page :: "'pdf \<Rightarrow> nat \<Rightarrow> error + 'img"
  image_to_string :: "'img \<Rightarrow> error + string"

definition MIN_TEXT_CHARS :: nat where
  "MIN_TEXT_CHARS = 25"

definition is_blank :: "char \<Rightarrow> bool" where
  "is_blank c = (c = CHR '' '' \<or> c = CHR 0x09)"

text \<open>\<open>re.sub(r"[ \t]+", " ", s)\<close>: every maximal run of spaces and tabs becomes one space.\<close>

function squeeze_blanks :: "string \<Rightarrow> string" where
  "squeeze_blanks [] = []"
| "squeeze_blanks (c # cs) =
     (if is_blank c then CHR '' '' # squeeze_blanks (dropWhile is_blank cs)
      else c # squeeze_blanks cs)"
  by pat_completeness auto
termination
  by (relation "measure length") (auto simp: length_dropWhile_le le_imp_less_Suc)

text \<open>\<open>re.sub(r"\n{2,}", "\n", s)\<close>: every maximal run of two or more newlines becomes one
  newline.\<close>

function squeeze_newlines :: "string \<Rightarrow> string" where
  "squeeze_newlines [] = []"
| "squeeze_newlines [c] = [c]"
| "squeeze_newlines (c # d # cs) =
     (if c = CHR 0x0A \<and> d = CHR 0x0A
      then CHR 0x0A # squeeze_newlines (dropWhile (\<lambda>x. x = CHR 0x0A) cs)
      else c # squeeze_newlines (d # cs))"
  by pat_completeness auto
termination
  by (relation "measure length") (auto simp: length_dropWhile_le le_imp_less_Suc less_Suc_eq_le le_SucI)

definition clean_ocr_text :: "string \<Rightarrow> string" where
  "clean_ocr_text ocr_text_raw = strip (squeeze_newlines (squeeze_blanks ocr_text_raw))"

text \<open>The document built from recognised text.\<close>

definition ocr_document :: "string \<Rightarrow> document \<Rightarrow> pyval \<Rightarrow> string \<Rightarrow> document" where
  "ocr_document file_path doc page_num clean_text =
     \<lparr> page_content = clean_text,
       metadata = [''page'' \<mapsto> page_num,
                   ''section'' \<mapsto> dict_get (metadata doc) ''section'' (PStr ''''),
                   ''source'' \<mapsto> PStr file_path,
                   ''file_name'' \<mapsto> PStr (last_segment file_path),
                   ''parser'' \<mapsto> PStr ''ocr'',
                   ''ocr'' \<mapsto> PBool True] \<rparr>"

text \<open>
  One iteration of the loop of \<open>ocr_pages_if_empty\<close>, for the document at list position
  \<open>idx\<close>.  It returns the document appended to \<open>updated_docs\<close> and the page indices
  passed to \<open>pdf.load_page\<close> (none, or \<open>idx\<close>).
\<close>

definition ocr_one ::
  "('pdf, 'img) ocr_lib \<Rightarrow> 'pdf \<Rightarrow> string \<Rightarrow> nat \<Rightarrow> document \<Rightarrow> document \<times> nat list" where
  "ocr_one lib pdf file_path idx doc =
     (let page_num = dict_get (metadata doc) ''page'' (PInt (int idx + 1));
          text = strip (page_content doc)
      in if length text \<ge> MIN_TEXT_CHARS then (doc, [])
         else (case render_page lib pdf idx of
                 Inl e \<Rightarrow> (doc, [idx])
               | Inr img \<Rightarrow>
                   (case image_to_string lib img of
                      Inl e \<Rightarrow> (doc, [idx])
                    | Inr ocr_text_raw \<Rightarrow>
                        (let clean_text = clean_ocr_text ocr_text_raw
                         in if length clean_text < 5 then (doc, [idx])
                            else (ocr_document file_path doc page_num clean_text, [idx])))))"

fun ocr_loop ::
  "('pdf, 'img) ocr_lib \<Rightarrow> 'pdf \<Rightarrow> string \<Rightarrow> nat \<Rightarrow> document list \<Rightarrow> document list \<times> nat list" where
  "ocr_loop lib pdf file_path idx [] = ([], [])"
| "ocr_loop lib pdf file_path idx (doc # docs) =
     (let (d, loaded) = ocr_one lib pdf file_path idx doc;
          (ds, loaded') = ocr_loop lib pdf file_path (Suc idx) docs
      in (d # ds, loaded @ loaded'))"

definition ocr_pages_if_empty ::
  "('pdf, 'img) ocr_lib \<Rightarrow> string \<Rightarrow> document list \<Rightarrow> document list \<times> nat list" where
  "ocr_pages_if_empty lib file_path docs =
     (case fitz_open lib file_path of
        Inl e \<Rightarrow> (docs, [])
      | Inr pdf \<Rightarrow> ocr_loop lib pdf file_path 0 docs)"

section \<open>Library collaborators\<close>

text \<open>
  The compiled regular expressions of the repository.  Matching is done by Python's
  \<open>re\<close> module, which is a parameter of the model: \<open>re_search p s\<close> is \<open>group(0)\<close> of
  the leftmost match of \<open>p\<close> in \<open>s\<close>, or \<open>None\<close>.  (\<open>SECTION_PATTERN\<close> is one group
  around the whole expression, so its \<open>group(1)\<close> is \<open>group(0)\<close>.)
\<close>

datatype pattern =
    SECTION_PATTERN
  | SECTION_REGEX
  | SPEC_PATTERN
  | SPEC_NUMBER_UNITS
  | SPEC_NUMBER_DECIMAL
  | SPEC_NUMBER_INTEGER

definition SPEC_NUMBER_PATTERNS :: "pattern list" where
  "SPEC_NUMBER_PATTERNS = [SPEC_NUMBER_UNITS, SPEC_NUMBER_DECIMAL, SPEC_NUMBER_INTEGER]"

text \<open>The two prompt templates, applied to their arguments.\<close>

datatype prompt =
    ClassifyPrompt string
  | ExtractPrompt string string string

datatype json =
    JNull
  | JBool bool
  | JInt int
  | JFloat real
  | JString string
  | JArray "json list"
  | JObject "(string \<times> json) list"

text \<open>
  What the libraries compute: the text splitter of langchain, \<open>re\<close>, the generative model
  (\<open>generate p\<close> is \<open>response.text\<close>, possibly \<open>None\<close>, or the exception raised), the JSON
  reader inside pydantic and its lax conversion to \<open>int\<close>, \<open>json.loads\<close>, \<open>json.dumps\<close>,
  \<open>float\<close> on a string, \<open>str\<close> and the \<open>.2f\<close> format.
\<close>

record library =
  split_text :: "string \<Rightarrow> string list"
  re_search :: "pattern \<Rightarrow> string \<Rightarrow> string option"
  generate :: "prompt \<Rightarrow> error + string option"
  from_json :: "string \<Rightarrow> json option"
  lax_int :: "json \<Rightarrow> int option"
  json_loads :: "string \<Rightarrow> json option"
  json_dumps :: "json \<Rightarrow> string"
  float_of_str :: "string \<Rightarrow> real option"
  str_of :: "pyval \<Rightarrow> string"
  format_2f :: "real \<Rightarrow> string"

section \<open>Parsers and parse manager (\<open>parsers/*.py\<close>)\<close>

text \<open>
  The collaborators of the parsers: the LlamaParse client (absent when no key is
  configured; otherwise \<open>load_data\<close>, which may raise and returns items with a text that may
  be \<open>None\<close> and a metadata dictionary), and PyMuPDF (\<open>fitz.open\<close>, which may raise, then
  \<open>get_text\<close> of each page in order, which may raise).
\<close>

record llama_result =
  result_content :: "string option"
  result_metadata :: "string \<rightharpoonup> pyval"

record parse_lib =
  llama_client :: "(string \<Rightarrow> error + llama_result list) option"
  fitz_page_texts :: "string \<Rightarrow> error + (error + string) list"

text \<open>The whitespace normalisation both parsers apply to the text of a page: the two
  \<open>re.sub\<close> calls and \<open>strip()\<close>.\<close>

definition clean_page_text :: "string \<Rightarrow> string" where
  "clean_page_text raw_text = strip (squeeze_newlines (squeeze_blanks raw_text))"

text \<open>\<open>section_match.group(1).strip() if section_match else ""\<close>; \<open>SECTION_REGEX\<close> is one
  group around the whole expression.\<close>

definition section_header :: "library \<Rightarrow> string \<Rightarrow> string" where
  "section_header lib text =
     (case re_search lib SECTION_REGEX text of Some m \<Rightarrow> strip m | None \<Rightarrow> '''')"

definition pymupdf_document :: "library \<Rightarrow> string \<Rightarrow> nat \<Rightarrow> string \<Rightarrow> document" where
  "pymupdf_document lib file_path i raw_text =
     (let text = clean_page_text raw_text;
          section = section_header lib text
      in \<lparr> page_content = text,
           metadata = [''page'' \<mapsto> PInt (int i + 1),
                       ''section'' \<mapsto> PStr section,
                       ''source'' \<mapsto> PStr file_path,
                       ''file_name'' \<mapsto> PStr (last_segment file_path),
                       ''parser'' \<mapsto> PStr ''pymupdf''] \<rparr>)"

text \<open>The loop of \<open>PyMuPDFParser.load\<close>: an exception on a page ends the loop and the pages
  read so far are kept.\<close>

fun pymupdf_loop :: "library \<Rightarrow> string \<Rightarrow> nat \<Rightarrow> (error + string) list \<Rightarrow> document list" where
  "pymupdf_loop lib file_path i [] = []"
| "pymupdf_loop lib file_path i (p # ps) =
     (case p of
        Inl e \<Rightarrow> []
      | Inr raw_text \<Rightarrow>
          pymupdf_document lib file_path i raw_text # pymupdf_loop lib file_path (Suc i) ps)"

definition pymupdf_load :: "library \<Rightarrow> parse_lib \<Rightarrow> string \<Rightarrow> error + document list" where
  "pymupdf_load lib plib file_path =
     (case fitz_page_texts plib file_path of
        Inl e \<Rightarrow> Inl e
      | Inr pages \<Rightarrow> Inr (pymupdf_loop lib file_path 0 pages))"

definition llama_document :: "library \<Rightarrow> string \<Rightarrow> nat \<Rightarrow> llama_result \<Rightarrow> document" where
  "llama_document lib file_path idx parsed =
     (let page_text = (case result_content parsed of None \<Rightarrow> '''' | Some t \<Rightarrow> t);
          clean = clean_page_text page_text;
          section = section_header lib clean;
          page_num = (case result_metadata parsed ''page_number'' of
                        None \<Rightarrow> PInt (int idx + 1)
                      | Some v \<Rightarrow> if truthy v then v else PInt (int idx + 1))
      in \<lparr> page_content = clean,
           metadata = [''page'' \<mapsto> page_num,
                       ''section'' \<mapsto> PStr section,
                       ''source'' \<mapsto> PStr file_path,
                       ''file_name'' \<mapsto> PStr (last_segment file_path),
                       ''parser'' \<mapsto> PStr ''llamaparse''] \<rparr>)"

definition llama_load :: "library \<Rightarrow> parse_lib \<Rightarrow> string \<Rightarrow> error + document list" where
  "llama_load lib plib file_path =
     (case llama_client plib of
        None \<Rightarrow> Inl (RuntimeError ''LlamaParse client not initialized.'')
      | Some load_data \<Rightarrow>
          (case load_data file_path of
             Inl e \<Rightarrow> Inl e
           | Inr results \<Rightarrow>
               Inr (map (\<lambda>(idx, parsed). llama_document lib file_path idx parsed)
                        (enumerate 0 results))))"

text \<open>
  The first step of \<open>ParseManager.load\<close>: the pages handed to the OCR fallback.  A failure
  or an empty result of LlamaParse falls back to PyMuPDF, whose failure to open the file
  is raised.
\<close>

definition parse_pages :: "library \<Rightarrow> parse_lib \<Rightarrow> string \<Rightarrow> error + document list" where
  "parse_pages lib plib file_path =
     (if llama_client plib \<noteq> None
      then (case llama_load lib plib file_path of
              Inr docs \<Rightarrow> if docs \<noteq> [] then Inr docs else pymupdf_load lib plib file_path
            | Inl e \<Rightarrow> pymupdf_load lib plib file_path)
      else pymupdf_load lib plib file_path)"

text \<open>\<open>d.setdefault(k, v)\<close>.\<close>

definition setdefault :: "(string \<rightharpoonup> pyval) \<Rightarrow> string \<Rightarrow> pyval \<Rightarrow> (string \<rightharpoonup> pyval)" where
  "setdefault m k v = (case m k of None \<Rightarrow> m(k \<mapsto> v) | Some x \<Rightarrow> m)"

definition fix_metadata :: "parse_lib \<Rightarrow> string \<Rightarrow> document \<Rightarrow> document" where
  "fix_metadata plib file_path doc =
     doc\<lparr> metadata :=
            setdefault
              (setdefault
                 (setdefault (setdefault (metadata doc) ''page'' (PInt (- 1))) ''section'' (PStr ''''))
                 ''source'' (PStr file_path))
              ''parser'' (PStr (if llama_client plib \<noteq> None then ''llama'' else ''pymupdf'')) \<rparr>"

definition ParseManager_load ::
  "library \<Rightarrow> parse_lib \<Rightarrow> ('pdf, 'img) ocr_lib \<Rightarrow> string \<Rightarrow> error + document list" where
  "ParseManager_load lib plib olib file_path =
     (case parse_pages lib plib file_path of
        Inl e \<Rightarrow> Inl e
      | Inr docs \<Rightarrow>
          Inr (map (fix_metadata plib file_path)
                   (fst (ocr_pages_if_empty olib file_path docs))))"

section \<open>Chunker (\<open>chunking/chunker.py\<close>)\<close>

text \<open>The body of the inner loop of \<open>split_documents\<close>: the chunk document built from the
  \<open>chunk_index\<close>-th piece of a page.\<close>

definition make_chunk :: "library \<Rightarrow> document \<Rightarrow> nat \<Rightarrow> string \<Rightarrow> document" where
  "make_chunk lib doc chunk_index chunk =
     (let original_section = dict_get (metadata doc) ''section'' (PStr '''');
          page_num = dict_get (metadata doc) ''page'' (PStr ''?'');
          md = (metadata doc)(''chunk_index'' \<mapsto> PInt (int chunk_index),
                              ''parent_page'' \<mapsto> page_num,
                              ''original_section'' \<mapsto> original_section);
          md' = (if \<not> truthy original_section
                 then (case re_search lib SECTION_PATTERN chunk of
                         Some m \<Rightarrow> md(''section'' \<mapsto> PStr (strip m))
                       | None \<Rightarrow> md)
                 else md)
      in \<lparr> page_content = strip chunk, metadata = md' \<rparr>)"

definition split_page :: "library \<Rightarrow> document \<Rightarrow> document list" where
  "split_page lib doc =
     map (\<lambda>(chunk_index, chunk). make_chunk lib doc chunk_index chunk)
         (enumerate 0 (split_text lib (page_content doc)))"

definition split_documents :: "library \<Rightarrow> document list \<Rightarrow> document list" where
  "split_documents lib docs = concat (map (split_page lib) docs)"

section \<open>Query classifier (\<open>pipeline/query_classifier.py\<close>)\<close>

datatype QueryType = SPEC | GENERAL

fun QueryType_value :: "QueryType \<Rightarrow> string" where
  "QueryType_value SPEC = ''spec''"
| "QueryType_value GENERAL = ''general''"

definition SPEC_KEYWORDS :: "string list" where
  "SPEC_KEYWORDS =
     [''torque'', ''tighten'', ''tightening'', ''bolt'', ''nut'', ''screw'',
      ''clearance'', ''gap'', ''stroke'', ''play'', ''pressure'', ''psi'', ''bar'',
      ''capacity'', ''volume'', ''oil'', ''fuel'', ''coolant'', ''level'',
      ''dimension'', ''length'', ''width'', ''height'', ''thickness'',
      ''rpm'', ''speed'', ''voltage'', ''current'', ''amp'', ''amps'', ''watt'',
      ''power'', ''resistance'', ''ohm'']"

text \<open>
  Both classifier functions return the query type together with the prompts they sent to
  the generative model.  \<open>response.text.strip()\<close> raises \<open>AttributeError\<close> when the text is
  \<open>None\<close>; every exception is caught and gives \<open>GENERAL\<close>.
\<close>

definition classify_query_llm :: "library \<Rightarrow> string \<Rightarrow> QueryType \<times> prompt list" where
  "classify_query_llm lib query =
     (case generate lib (ClassifyPrompt query) of
        Inl e \<Rightarrow> (GENERAL, [ClassifyPrompt query])
      | Inr None \<Rightarrow> (GENERAL, [ClassifyPrompt query])
      | Inr (Some t) \<Rightarrow>
          (if str_in ''spec'' (lower (strip t)) then (SPEC, [ClassifyPrompt query])
           else (GENERAL, [ClassifyPrompt query])))"

definition classify_query :: "library \<Rightarrow> string \<Rightarrow> QueryType \<times> prompt list" where
  "classify_query lib query =
     (let q = lower query
      in if list_ex (\<lambda>keyword. str_in keyword q) SPEC_KEYWORDS then (SPEC, [])
         else if re_search lib SPEC_PATTERN q \<noteq> None then (SPEC, [])
         else classify_query_llm lib query)"

section \<open>Retriever (\<open>retrieval/retriever.py\<close>)\<close>

text \<open>The vector store: \<open>similarity_search_with_score(query, k)\<close>.\<close>

type_synonym vectorstore = "string \<Rightarrow> nat \<Rightarrow> error + (document \<times> real) list"

definition retriever_SPEC_KEYWORDS :: "string list" where
  "retriever_SPEC_KEYWORDS =
     [''torque'', ''tighten'', ''nut'', ''bolt'', ''caliper'', ''hose'',
      ''psi'', ''capacity'', ''fluid'', ''oil'', ''grease'',
      ''disc'', ''pad'', ''brake'', ''shock'', ''damper'']"

definition keyword_score :: "string \<Rightarrow> string \<Rightarrow> real" where
  "keyword_score text query =
     (let t = lower text;
          q = lower query;
          score = fold (\<lambda>kw score.
                          (let score' = (if str_in kw t then score + 0.3 else score)
                           in if str_in kw q \<and> str_in kw t then score' + 0.5 else score'))
                       retriever_SPEC_KEYWORDS 0;
          score = fold (\<lambda>token score.
                          if length token > 3 \<and> str_in token t then score + 0.1 else score)
                       (py_split q) score
      in min score 2.0)"

text \<open>The annotations \<open>retrieve\<close> writes on one result.\<close>

definition annotate :: "real \<Rightarrow> real \<Rightarrow> string \<Rightarrow> document \<times> real \<Rightarrow> document" where
  "annotate min_s range_s query r =
     (case r of (doc, distance) \<Rightarrow>
        (let faiss_sim = 1 - ((distance - min_s) / range_s);
             kw = keyword_score (page_content doc) query;
             hybrid_raw = faiss_sim + kw
         in doc\<lparr> metadata := (metadata doc)
                    (''faiss_distance'' \<mapsto> PFloat distance,
                     ''faiss_similarity'' \<mapsto> PFloat faiss_sim,
                     ''keyword_score'' \<mapsto> PFloat kw,
                     ''retrieval_score'' \<mapsto> PFloat hybrid_raw,
                     ''retrieval_type'' \<mapsto> PStr ''hybrid'') \<rparr>))"

text \<open>The minimum and the divisor of the normalisation: \<open>min_s\<close> and
  \<open>range_s = (max_s - min_s) or 1\<close>.\<close>

definition min_and_range :: "real list \<Rightarrow> real \<times> real" where
  "min_and_range all_scores =
     (let max_s = (case all_scores of [] \<Rightarrow> 1 | s # ss \<Rightarrow> fold max ss s);
          min_s = (case all_scores of [] \<Rightarrow> 0 | s # ss \<Rightarrow> fold min ss s);
          range_s = (if max_s - min_s \<noteq> 0 then max_s - min_s else 1)
      in (min_s, range_s))"

definition retrieve :: "vectorstore \<Rightarrow> string \<Rightarrow> string \<Rightarrow> nat \<Rightarrow> document list" where
  "retrieve vs query query_type top_k =
     (case vs query top_k of
        Inl e \<Rightarrow> []
      | Inr results \<Rightarrow>
          (let all_scores = map snd results;
               (min_s, range_s) = min_and_range all_scores
           in map (annotate min_s range_s query) results))"

section \<open>Reranker (\<open>retrieval/reranker.py\<close>)\<close>

definition contains_real_spec :: "library \<Rightarrow> string \<Rightarrow> bool" where
  "contains_real_spec lib text =
     (let text = lower text
      in list_ex (\<lambda>pattern. re_search lib pattern text \<noteq> None) SPEC_NUMBER_PATTERNS)"

text \<open>\<open>float(x)\<close>.\<close>

fun py_float :: "library \<Rightarrow> pyval \<Rightarrow> error + real" where
  "py_float lib PNone = Inl TypeError"
| "py_float lib (PBool b) = Inr (if b then 1 else 0)"
| "py_float lib (PInt i) = Inr (real_of_int i)"
| "py_float lib (PFloat r) = Inr r"
| "py_float lib (PStr s) =
     (case float_of_str lib s of None \<Rightarrow> Inl ValueError | Some r \<Rightarrow> Inr r)"

text \<open>The boost of \<open>score_document\<close> (steps 2 to 4 and the limit), for the lower-cased
  chunk text and query.\<close>

definition boost_of :: "library \<Rightarrow> string \<Rightarrow> string \<Rightarrow> real" where
  "boost_of lib text q =
     (let boost = 0;
          boost = (if contains_real_spec lib text then boost + 1.2 else boost);
          boost = fold (\<lambda>k boost. if str_in k text then boost + 0.1 else boost)
                       [''torque'', ''bolt'', ''caliper'', ''rear'', ''front'', ''specification'']
                       boost;
          boost = fold (\<lambda>token boost.
                          if length token > 3 \<and> str_in token text then boost + 0.15 else boost)
                       (py_split q) boost
      in min boost 2.0)"

definition score_document :: "library \<Rightarrow> document \<Rightarrow> string \<Rightarrow> string \<Rightarrow> error + real" where
  "score_document lib doc query query_type =
     (let text = lower (page_content doc);
          q = lower query
      in case py_float lib (dict_get (metadata doc) ''score'' (PFloat 1.0)) of
           Inl e \<Rightarrow> Inl e
         | Inr semantic_score \<Rightarrow>
             (if 1 + semantic_score = 0 then Inl ZeroDivisionError
              else (let semantic_sim = 1 / (1 + semantic_score);
                        boost = boost_of lib text q;
                        final_score = 0.7 * semantic_sim + 0.3 * boost
                    in Inr final_score)))"

text \<open>The loop of \<open>rerank_documents\<close>; an exception of \<open>score_document\<close> leaves it.\<close>

fun score_all :: "library \<Rightarrow> document list \<Rightarrow> string \<Rightarrow> string \<Rightarrow> error + document list" where
  "score_all lib [] query query_type = Inr []"
| "score_all lib (d # docs) query query_type =
     (case score_document lib d query query_type of
        Inl e \<Rightarrow> Inl e
      | Inr score \<Rightarrow>
          (case score_all lib docs query query_type of
             Inl e \<Rightarrow> Inl e
           | Inr ds \<Rightarrow> Inr (d\<lparr> metadata := (metadata d)(''hybrid_score'' \<mapsto> PFloat score) \<rparr> # ds)))"

definition hybrid_score :: "document \<Rightarrow> real" where
  "hybrid_score d = (case metadata d ''hybrid_score'' of Some (PFloat r) \<Rightarrow> r | _ \<Rightarrow> 0)"

text \<open>\<open>sorted(..., reverse=True)\<close> is stable: documents with equal scores keep their order.\<close>

definition rerank_documents ::
  "library \<Rightarrow> document list \<Rightarrow> string \<Rightarrow> string \<Rightarrow> error + document list" where
  "rerank_documents lib docs query query_type =
     (case score_all lib docs query query_type of
        Inl e \<Rightarrow> Inl e
      | Inr ds \<Rightarrow> Inr (sort_key (\<lambda>d. - hybrid_score d) ds))"

section \<open>Extraction engine (\<open>pipeline/extraction_llm.py\<close>)\<close>

record SpecItem =
  component :: string
  value' :: string
  unit :: string
  page :: "int option"
  raw_text :: "string option"

text \<open>
  Validation of parsed JSON against the pydantic models \<open>SpecItem\<close> and \<open>SpecList\<close>:
  \<open>component\<close> and \<open>value\<close> are required strings, \<open>unit\<close> is a string with default
  \<open>""\<close>, \<open>page\<close> is an optional integer and \<open>raw_text\<close> an optional string, both with
  default \<open>None\<close>; \<open>specs\<close> is a required list of items.  Unknown keys are ignored.
\<close>

definition validate_SpecItem :: "library \<Rightarrow> json \<Rightarrow> SpecItem option" where
  "validate_SpecItem lib j =
     (case j of
        JObject kvs \<Rightarrow>
          (case (map_of kvs ''component'', map_of kvs ''value'') of
             (Some (JString c), Some (JString v)) \<Rightarrow>
               (let u = (case map_of kvs ''unit'' of
                           None \<Rightarrow> Some ''''
                         | Some (JString s) \<Rightarrow> Some s
                         | Some _ \<Rightarrow> None);
                    p = (case map_of kvs ''page'' of
                           None \<Rightarrow> Some None
                         | Some JNull \<Rightarrow> Some None
                         | Some x \<Rightarrow> (case lax_int lib x of None \<Rightarrow> None | Some i \<Rightarrow> Some (Some i)));
                    r = (case map_of kvs ''raw_text'' of
                           None \<Rightarrow> Some None
                         | Some JNull \<Rightarrow> Some None
                         | Some (JString s) \<Rightarrow> Some (Some s)
                         | Some _ \<Rightarrow> None)
                in case (u, p, r) of
                     (Some u', Some p', Some r') \<Rightarrow>
                       Some \<lparr> component = c, value' = v, unit = u', page = p', raw_text = r' \<rparr>
                   | _ \<Rightarrow> None)
           | _ \<Rightarrow> None)
      | _ \<Rightarrow> None)"

definition validate_SpecList :: "library \<Rightarrow> json \<Rightarrow> SpecItem list option" where
  "validate_SpecList lib j =
     (case j of
        JObject kvs \<Rightarrow>
          (case map_of kvs ''specs'' of
             Some (JArray items) \<Rightarrow> those (map (validate_SpecItem lib) items)
           | _ \<Rightarrow> None)
      | _ \<Rightarrow> None)"

text \<open>\<open>SpecList.model_validate_json(text).specs\<close>; malformed JSON and a schema violation
  both raise \<open>ValidationError\<close>.\<close>

definition model_validate_json :: "library \<Rightarrow> string \<Rightarrow> error + SpecItem list" where
  "model_validate_json lib text =
     (case from_json lib text of
        None \<Rightarrow> Inl ValidationError
      | Some j \<Rightarrow>
          (case validate_SpecList lib j of
             None \<Rightarrow> Inl ValidationError
           | Some specs \<Rightarrow> Inr specs))"

text \<open>
  \<open>re.search\<close> of an opening character, any characters (greedy, newlines included) and a
  closing character: the match starts at the first opening character and ends at the
  last closing character after it.
\<close>

definition greedy_between :: "char \<Rightarrow> char \<Rightarrow> string \<Rightarrow> string option" where
  "greedy_between opn cls raw =
     (case dropWhile (\<lambda>c. c \<noteq> opn) raw of
        [] \<Rightarrow> None
      | c # rest \<Rightarrow>
          (if cls \<in> set rest
           then Some (c # rev (dropWhile (\<lambda>x. x \<noteq> cls) (rev rest)))
           else None))"

definition extract_json_block :: "string \<Rightarrow> string option" where
  "extract_json_block raw =
     (case greedy_between (CHR ''{'') (CHR ''}'') raw of
        Some obj_match \<Rightarrow> Some obj_match
      | None \<Rightarrow>
          (case greedy_between (CHR ''['') (CHR '']'') raw of
             Some arr_match \<Rightarrow> Some arr_match
           | None \<Rightarrow> None))"

definition startswith :: "string \<Rightarrow> string \<Rightarrow> bool" where
  "startswith s p = prefix p s"

definition endswith :: "string \<Rightarrow> string \<Rightarrow> bool" where
  "endswith s p = suffix p s"

text \<open>The body of the outer \<open>try\<close> of \<open>extract_specs\<close>.\<close>

definition extract_specs_try :: "library \<Rightarrow> string \<Rightarrow> string \<Rightarrow> string \<Rightarrow> error + SpecItem list" where
  "extract_specs_try lib query context query_type =
     (case generate lib (ExtractPrompt query_type query context) of
        Inl e \<Rightarrow> Inl e
      | Inr response_text \<Rightarrow>
          (let raw_text = strip (case response_text of None \<Rightarrow> '''' | Some t \<Rightarrow> t)
           in case model_validate_json lib raw_text of
                Inr specs \<Rightarrow> Inr specs
              | Inl e \<Rightarrow>
                  (case extract_json_block raw_text of
                     None \<Rightarrow> Inr []
                   | Some json_block \<Rightarrow>
                       (let stripped = strip json_block
                        in if startswith stripped ''['' \<and> endswith stripped '']''
                           then (case json_loads lib stripped of
                                   None \<Rightarrow> Inl JSONDecodeError
                                 | Some arr \<Rightarrow>
                                     model_validate_json lib
                                       (json_dumps lib (JObject [(''specs'', arr)])))
                           else model_validate_json lib json_block))))"

text \<open>\<open>except Exception\<close>: every exception of the body gives the empty list.\<close>

definition extract_specs :: "library \<Rightarrow> string \<Rightarrow> string \<Rightarrow> string \<Rightarrow> SpecItem list" where
  "extract_specs lib query context query_type =
     (case extract_specs_try lib query context query_type of
        Inl e \<Rightarrow> []
      | Inr specs \<Rightarrow> specs)"

section \<open>Query processor (\<open>pipeline/query_processor.py\<close>)\<close>

record QueryProcessor =
  index_name :: string
  vectorstore :: "vectorstore option"
  last_context :: string

text \<open>Formatting with \<open>:.3f\<close> in the debug line of the initial documents: a string or
  \<open>None\<close> cannot be formatted.\<close>

fun format_f_check :: "pyval \<Rightarrow> error option" where
  "format_f_check PNone = Some TypeError"
| "format_f_check (PStr s) = Some ValueError"
| "format_f_check v = None"

fun log_initial_docs :: "document list \<Rightarrow> error option" where
  "log_initial_docs [] = None"
| "log_initial_docs (d # ds) =
     (case format_f_check (dict_get (metadata d) ''score'' (PFloat 1.0)) of
        Some e \<Rightarrow> Some e
      | None \<Rightarrow> log_initial_docs ds)"

text \<open>One block of the context string, for the \<open>idx\<close>-th final document.\<close>

definition context_block :: "library \<Rightarrow> nat \<Rightarrow> document \<Rightarrow> string" where
  "context_block lib idx d =
     (let page = dict_get (metadata d) ''page'' (PStr ''?'');
          section = dict_get (metadata d) ''section'' (PStr '''');
          score = hybrid_score d;
          text = strip (page_content d)
      in [CHR 0x0A] @ ''--- CHUNK '' @ str_of lib (PInt (int idx)) @ '' | Page '' @ str_of lib page
         @ '' | Section='' @ str_of lib section @ '' | Score='' @ format_2f lib score
         @ '' ---'' @ [CHR 0x0A] @ text)"

text \<open>\<open>"\n".join(blocks)\<close>.\<close>

fun join_lines :: "string list \<Rightarrow> string" where
  "join_lines [] = []"
| "join_lines [b] = b"
| "join_lines (b # bs) = b @ [CHR 0x0A] @ join_lines bs"

definition spec_key :: "SpecItem \<Rightarrow> string \<times> string \<times> string" where
  "spec_key s = (lower (component s), lower (value' s), lower (unit s))"

text \<open>Step 6 of \<open>answer_query\<close>.  A Python dictionary keeps its keys in the order of their
  first insertion and, for each key, the value assigned last.\<close>

definition dedup_specs :: "SpecItem list \<Rightarrow> SpecItem list" where
  "dedup_specs specs =
     map snd (fold (\<lambda>s unique. AList.update (spec_key s) s unique) specs [])"

definition not_initialized :: error where
  "not_initialized = RuntimeError ''Vectorstore not initialized. Build or load index first.''"

text \<open>\<open>answer_query\<close> returns the result (or the exception) and the processor, whose
  \<open>last_context\<close> is set once the context string is built.\<close>

definition answer_query ::
  "library \<Rightarrow> QueryProcessor \<Rightarrow> string \<Rightarrow> (error + SpecItem list) \<times> QueryProcessor" where
  "answer_query lib self query =
     (case vectorstore self of
        None \<Rightarrow> (Inl not_initialized, self)
      | Some vs \<Rightarrow>
          (let query_type = fst (classify_query lib query);
               query_type_str = QueryType_value query_type;
               initial_docs = retrieve vs query query_type_str 15
           in case log_initial_docs initial_docs of
                Some e \<Rightarrow> (Inl e, self)
              | None \<Rightarrow>
                  (case rerank_documents lib initial_docs query query_type_str of
                     Inl e \<Rightarrow> (Inl e, self)
                   | Inr ranked_docs \<Rightarrow>
                       (let final_docs = take 6 ranked_docs;
                            blocks = map (\<lambda>(idx, d). context_block lib idx d)
                                         (enumerate 1 final_docs);
                            context = join_lines blocks;
                            self' = self\<lparr> last_context := context \<rparr>;
                            specs = extract_specs lib query context query_type_str
                        in (Inr (dedup_specs specs), self')))))"

section \<open>Notions of the specification\<close>

text \<open>
  Two characters are the same letter up to case when they are equal or one is the
  lower-case form of the other; two strings are equal up to letter case when they have the
  same length and agree, position by position, up to case.  These follow the wording of
  the specification; the code compares \<open>lower()\<close> of the strings instead.
\<close>

definition same_letter :: "char \<Rightarrow> char \<Rightarrow> bool" where
  "same_letter x y = (x = y \<or> lower_char x = y \<or> lower_char y = x)"

definition eq_upto_case :: "string \<Rightarrow> string \<Rightarrow> bool" where
  "eq_upto_case a b = list_all2 same_letter a b"

text \<open>Two extracted items are the same specification up to letter case when their
  \<open>component\<close>, their \<open>value\<close> and their \<open>unit\<close> are equal up to letter case.\<close>

definition same_spec :: "SpecItem \<Rightarrow> SpecItem \<Rightarrow> bool" where
  "same_spec a b =
     (eq_upto_case (component a) (component b)
      \<and> eq_upto_case (value' a) (value' b)
      \<and> eq_upto_case (unit a) (unit b))"

section \<open>Example inputs\<close>

text \<open>A three-page PDF that opens and renders; recognition reads a cover page on page
  index 0, almost nothing on index 1 and a specification on every later page.\<close>

definition ex_ocr_lib :: "(unit, nat) ocr_lib" where
  "ex_ocr_lib =
     \<lparr> fitz_open = (\<lambda>path. Inr ()),
       render_page = (\<lambda>pdf idx. if idx < 3 then Inr idx else Inl ValueError),
       image_to_string = (\<lambda>img. if img = 0 then Inr ''Cover   page:  service manual''
                                  else if img = 1 then Inr ''  ok ''
                                  else Inr ''Rear caliper bolt 35 Nm'') \<rparr>"

text \<open>A page holding a figure caption followed by blank lines, labelled page 3.\<close>

definition ex_caption_page :: document where
  "ex_caption_page =
     \<lparr> page_content = ''Fig. 7'' @ replicate 24 (CHR 0x0A),
       metadata = [''page'' \<mapsto> PInt 3, ''parser'' \<mapsto> PStr ''pymupdf''] \<rparr>"

definition ex_long_page :: document where
  "ex_long_page =
     \<lparr> page_content = ''Tighten the rear caliper bolt to 35 Nm.'',
       metadata = [''page'' \<mapsto> PInt 1, ''parser'' \<mapsto> PStr ''pymupdf''] \<rparr>"

text \<open>A library whose splitter cuts after 30 characters, whose section pattern matches
  every text and whose generative model is unreachable.\<close>

definition ex_lib :: library where
  "ex_lib =
     \<lparr> split_text = (\<lambda>s. [take 30 s, drop 30 s]),
       re_search = (\<lambda>p s. if p = SECTION_PATTERN then Some ''SECTION 204: Front Suspension''
                           else None),
       generate = (\<lambda>p. Inl (CollaboratorError ''model unreachable'')),
       from_json = (\<lambda>s. None),
       lax_int = (\<lambda>j. case j of JInt i \<Rightarrow> Some i | _ \<Rightarrow> None),
       json_loads = (\<lambda>s. None),
       json_dumps = (\<lambda>j. []),
       float_of_str = (\<lambda>s. None),
       str_of = (\<lambda>v. case v of PStr s \<Rightarrow> s | _ \<Rightarrow> ''?''),
       format_2f = (\<lambda>r. ''0.00'') \<rparr>"

definition ex_section_page :: document where
  "ex_section_page =
     \<lparr> page_content = ''SECTION 204: Front Suspension. Tighten bolt to 35 Nm.'',
       metadata = [''page'' \<mapsto> PInt 7, ''section'' \<mapsto> PStr ''SECTION 100: General''] \<rparr>"

text \<open>An index holding three chunks, at distances 0.25, 0.75 and 0.5 from every query, and
  an index whose two chunks are equally distant.\<close>

definition ex_chunk_a :: document where
  "ex_chunk_a =
     \<lparr> page_content = ''Rear caliper bolt torque: 35 Nm'',
       metadata = [''page'' \<mapsto> PInt 12, ''section'' \<mapsto> PStr ''SECTION 206: Brakes''] \<rparr>"

definition ex_chunk_b :: document where
  "ex_chunk_b =
     \<lparr> page_content = ''Remove the wheel.'',
       metadata = [''page'' \<mapsto> PInt 13, ''section'' \<mapsto> PStr ''SECTION 206: Brakes''] \<rparr>"

definition ex_chunk_c :: document where
  "ex_chunk_c =
     \<lparr> page_content = ''Bleed the brake hose.'',
       metadata = [''page'' \<mapsto> PInt 14, ''section'' \<mapsto> PStr ''SECTION 206: Brakes''] \<rparr>"

definition ex_index :: vectorstore where
  "ex_index = (\<lambda>query k. Inr [(ex_chunk_a, 0.25), (ex_chunk_b, 0.75), (ex_chunk_c, 0.5)])"

definition ex_flat_index :: vectorstore where
  "ex_flat_index = (\<lambda>query k. Inr [(ex_chunk_a, 0.5), (ex_chunk_b, 0.5)])"

text \<open>Three extracted items: the first and the third differ by letter case only.\<close>

definition ex_spec_upper :: SpecItem where
  "ex_spec_upper =
     \<lparr> component = ''Rear Caliper Bolt'', value' = ''35'', unit = ''NM'',
       page = Some 12, raw_text = None \<rparr>"

definition ex_spec_other :: SpecItem where
  "ex_spec_other =
     \<lparr> component = ''Front axle nut'', value' = ''110'', unit = ''Nm'',
       page = Some 30, raw_text = None \<rparr>"

definition ex_spec_lower :: SpecItem where
  "ex_spec_lower =
     \<lparr> component = ''rear caliper bolt'', value' = ''35'', unit = ''Nm'',
       page = Some 48, raw_text = Some ''rear caliper bolt 35 Nm'' \<rparr>"

text \<open>A processor with the three-chunk index loaded, and one without an index.\<close>

definition ex_processor :: QueryProcessor where
  "ex_processor =
     \<lparr> index_name = ''spec_index'', vectorstore = Some ex_index, last_context = [] \<rparr>"

definition ex_fresh_processor :: QueryProcessor where
  "ex_fresh_processor =
     \<lparr> index_name = ''spec_index'', vectorstore = None, last_context = [] \<rparr>"

text \<open>A model response in which narrative text precedes a bare array holding one item, the
  object inside the array, the array, and the parsed forms of both.\<close>

definition ex_array_response :: string where
  \<open>ex_array_response = ''Here are the specs: [{"component":"X","value":"1","unit":""}]''\<close>

definition ex_inner_object :: string where
  \<open>ex_inner_object = ''{"component":"X","value":"1","unit":""}''\<close>

definition ex_item_json :: json where
  "ex_item_json =
     JObject [(''component'', JString ''X''), (''value'', JString ''1''), (''unit'', JString '''')]"

definition ex_item :: SpecItem where
  "ex_item = \<lparr> component = ''X'', value' = ''1'', unit = '''', page = None, raw_text = None \<rparr>"

text \<open>A library whose model returns that response and whose JSON readers read the object
  and nothing else.\<close>

definition ex_json_lib :: library where
  "ex_json_lib =
     ex_lib\<lparr> generate := (\<lambda>p. Inr (Some ex_array_response)),
             from_json := (\<lambda>s. if s = ex_inner_object then Some ex_item_json else None),
             json_loads := (\<lambda>s. if s = ex_inner_object then Some ex_item_json else None) \<rparr>"

text \<open>A parse step without LlamaParse: PyMuPDF reads a page of text and a page of blank
  lines, and the two page documents it builds.\<close>

definition ex_parse_lib :: parse_lib where
  "ex_parse_lib =
     \<lparr> llama_client = None,
       fitz_page_texts = (\<lambda>path. Inr [Inr (''Tighten  the rear caliper bolt to 35 Nm.'' @ [CHR 0x0A, CHR 0x0A]),
                                      Inr [CHR 0x0A, CHR 0x0A]]) \<rparr>"

definition ex_parsed_page :: document where
  "ex_parsed_page =
     \<lparr> page_content = ''Tighten the rear caliper bolt to 35 Nm.'',
       metadata = [''page'' \<mapsto> PInt 1,
                   ''section'' \<mapsto> PStr '''',
                   ''source'' \<mapsto> PStr ''manual.pdf'',
                   ''file_name'' \<mapsto> PStr ''manual.pdf'',
                   ''parser'' \<mapsto> PStr ''pymupdf''] \<rparr>"

definition ex_parsed_blank_page :: document where
  "ex_parsed_blank_page =
     \<lparr> page_content = [],
       metadata = [''page'' \<mapsto> PInt 2,
                   ''section'' \<mapsto> PStr '''',
                   ''source'' \<mapsto> PStr ''manual.pdf'',
                   ''file_name'' \<mapsto> PStr ''manual.pdf'',
                   ''parser'' \<mapsto> PStr ''pymupdf''] \<rparr>"

text \<open>A model response holding the three extracted items as JSON, its parsed form, and a
  library whose model gives that response to every prompt.\<close>

definition ex_specs_response :: string where
  \<open>ex_specs_response = ''{"specs":[{"component":"Rear Caliper Bolt","value":"35","unit":"NM","page":12},{"component":"Front axle nut","value":"110","unit":"Nm","page":30},{"component":"rear caliper bolt","value":"35","unit":"Nm","page":48,"raw_text":"rear caliper bolt 35 Nm"}]}''\<close>

definition ex_specs_json :: json where
  "ex_specs_json =
     JObject [(''specs'', JArray
       [JObject [(''component'', JString ''Rear Caliper Bolt''), (''value'', JString ''35''),
                 (''unit'', JString ''NM''), (''page'', JInt 12)],
        JObject [(''component'', JString ''Front axle nut''), (''value'', JString ''110''),
                 (''unit'', JString ''Nm''), (''page'', JInt 30)],
        JObject [(''component'', JString ''rear caliper bolt''), (''value'', JString ''35''),
                 (''unit'', JString ''Nm''), (''page'', JInt 48),
                 (''raw_text'', JString ''rear caliper bolt 35 Nm'')]])]"

definition ex_specs_lib :: library where
  "ex_specs_lib =
     ex_lib\<lparr> generate := (\<lambda>p. Inr (Some ex_specs_response)),
             from_json := (\<lambda>s. if s = ex_specs_response then Some ex_specs_json else None) \<rparr>"

section \<open>Properties of the OCR fallback\<close>

lemma ocr_loop_Cons_fst:
  "fst (ocr_loop lib pdf fp idx (d # ds)) =
     fst (ocr_one lib pdf fp idx d) # fst (ocr_loop lib pdf fp (Suc idx) ds)"
  by (simp add: case_prod_unfold Let_def)

lemma ocr_loop_Cons_snd:
  "snd (ocr_loop lib pdf fp idx (d # ds)) =
     snd (ocr_one lib pdf fp idx d) @ snd (ocr_loop lib pdf fp (Suc idx) ds)"
  by (simp add: case_prod_unfold Let_def)

lemma ocr_loop_length: "length (fst (ocr_loop lib pdf fp idx docs)) = length docs"
  by (induction docs arbitrary: idx) (simp_all add: ocr_loop_Cons_fst del: ocr_loop.simps(2))

text \<open>The document at list position \<open>i\<close> is handled with page index \<open>idx + i\<close>.\<close>

lemma ocr_loop_nth:
  "i < length docs \<Longrightarrow>
   fst (ocr_loop lib pdf fp idx docs) ! i = fst (ocr_one lib pdf fp (idx + i) (docs ! i))"
proof (induction docs arbitrary: idx i)
  case Nil
  then show ?case by simp
next
  case (Cons d ds)
  show ?case
  proof (cases i)
    case 0
    then show ?thesis by (simp add: ocr_loop_Cons_fst del: ocr_loop.simps(2))
  next
    case (Suc j)
    with Cons.prems have "j < length ds" by simp
    from Cons.IH [OF this, of "Suc idx"] Suc show ?thesis
      by (simp add: ocr_loop_Cons_fst del: ocr_loop.simps(2))
  qed
qed

lemma ocr_one_loaded:
  "snd (ocr_one lib pdf fp idx doc) =
     (if length (strip (page_content doc)) < MIN_TEXT_CHARS then [idx] else [])"
  by (simp add: ocr_one_def Let_def split: sum.splits)

lemma filter_upt_Cons:
  "[i \<leftarrow> [0..<length (d # ds)]. P ((d # ds) ! i)] =
     (if P d then [0] else []) @ map Suc [i \<leftarrow> [0..<length ds]. P (ds ! i)]"
proof -
  have "[0..<length (d # ds)] = 0 # map Suc [0..<length ds]"
    by (simp add: upt_conv_Cons map_Suc_upt del: upt_Suc)
  then show ?thesis
    by (simp add: filter_map o_def del: upt_Suc)
qed

lemma ocr_loop_loaded:
  "snd (ocr_loop lib pdf fp idx docs) =
     map (\<lambda>i. idx + i)
       [i \<leftarrow> [0..<length docs]. length (strip (page_content (docs ! i))) < MIN_TEXT_CHARS]"
proof (induction docs arbitrary: idx)
  case Nil
  then show ?case by simp
next
  case (Cons d ds)
  show ?case
    unfolding ocr_loop_Cons_snd ocr_one_loaded Cons.IH
      filter_upt_Cons [of "\<lambda>x. length (strip (page_content x)) < MIN_TEXT_CHARS" d ds]
    by (simp add: o_def)
qed

text \<open>Stripping never lengthens a text, so a page shorter than the threshold is also
  shorter after stripping.\<close>

lemma strip_length_le: "length (strip s) \<le> length s"
proof -
  have "length (strip s) \<le> length (rev (dropWhile isspace s))"
    unfolding strip_def length_rev [of "dropWhile isspace (rev (dropWhile isspace s))"]
    by (rule length_dropWhile_le)
  also have "\<dots> \<le> length s"
    by (simp add: length_dropWhile_le)
  finally show ?thesis .
qed

lemma ex_caption_strip: "strip (page_content ex_caption_page) = ''Fig. 7''"
  by code_simp

lemma ex_clean0:
  "clean_ocr_text ''Cover   page:  service manual'' = ''Cover page: service manual''"
  by (simp add: clean_ocr_text_def is_blank_def strip_def isspace_def)

lemma ex_clean1: "clean_ocr_text ''  ok '' = ''ok''"
  by (simp add: clean_ocr_text_def is_blank_def strip_def isspace_def)

lemma ex_clean2: "clean_ocr_text ''Rear caliper bolt 35 Nm'' = ''Rear caliper bolt 35 Nm''"
  by (simp add: clean_ocr_text_def is_blank_def strip_def isspace_def)

text \<open>A page whose stripped text has at least 25 characters is returned unchanged, whatever
  the collaborators do; the list keeps its length.\<close>

lemma ocr_keeps_long_stripped_text:
  assumes "i < length docs"
    and "25 \<le> length (strip (page_content (docs ! i)))"
  shows "length (fst (ocr_pages_if_empty lib file_path docs)) = length docs
       \<and> fst (ocr_pages_if_empty lib file_path docs) ! i = docs ! i"
  using assms
  by (simp add: ocr_pages_if_empty_def ocr_loop_length ocr_loop_nth ocr_one_def
        MIN_TEXT_CHARS_def split: sum.splits)

lemma strip_prefix:
  "dropWhile isspace s = strip s @ rev (takeWhile isspace (rev (dropWhile isspace s)))"
proof -
  let ?u = "dropWhile isspace s"
  have "rev (takeWhile isspace (rev ?u) @ dropWhile isspace (rev ?u)) = ?u"
    by (simp only: takeWhile_dropWhile_id rev_rev_ident)
  then have "rev (dropWhile isspace (rev ?u)) @ rev (takeWhile isspace (rev ?u)) = ?u"
    by (simp only: rev_append)
  then show ?thesis
    unfolding strip_def by (rule sym)
qed

lemma strip_hd: "strip s \<noteq> [] \<Longrightarrow> \<not> isspace (hd (strip s))"
proof -
  assume ne: "strip s \<noteq> []"
  then have "hd (dropWhile isspace s) = hd (strip s)" and "dropWhile isspace s \<noteq> []"
    using strip_prefix [of s] by (metis hd_append2, metis append_is_Nil_conv)
  then show ?thesis
    using hd_dropWhile [of isspace s] by simp
qed

text \<open>Stripping a stripped text changes nothing.\<close>

lemma strip_idem: "strip (strip s) = strip s"
proof -
  have front: "dropWhile isspace (strip s) = strip s"
    using strip_hd [of s] by (cases "strip s") auto
  have "dropWhile isspace (rev (strip s)) = rev (strip s)"
    by (simp add: strip_def)
  then have "rev (dropWhile isspace (rev (strip s))) = strip s"
    by simp
  then show ?thesis
    unfolding strip_def [of "strip s"] front .
qed

lemma pymupdf_loop_stripped:
  "d \<in> set (pymupdf_loop lib file_path i pages) \<Longrightarrow> strip (page_content d) = page_content d"
proof (induction pages arbitrary: i)
  case Nil
  then show ?case by simp
next
  case (Cons p ps)
  then show ?case
    by (cases p) (auto simp: pymupdf_document_def clean_page_text_def Let_def strip_idem)
qed

lemma pymupdf_load_stripped:
  "pymupdf_load lib plib file_path = Inr docs \<Longrightarrow> d \<in> set docs \<Longrightarrow>
     strip (page_content d) = page_content d"
  by (auto simp: pymupdf_load_def split: sum.splits dest: pymupdf_loop_stripped)

lemma llama_load_stripped:
  "llama_load lib plib file_path = Inr docs \<Longrightarrow> d \<in> set docs \<Longrightarrow>
     strip (page_content d) = page_content d"
  by (auto simp: llama_load_def llama_document_def clean_page_text_def Let_def strip_idem
        split: option.splits sum.splits)

text \<open>Every page the parse step hands to the OCR fallback is stripped.\<close>

lemma parse_pages_stripped:
  assumes "parse_pages lib plib file_path = Inr docs" and "d \<in> set docs"
  shows "strip (page_content d) = page_content d"
  using assms
  by (auto simp: parse_pages_def split: if_splits sum.splits
        dest: pymupdf_load_stripped llama_load_stripped)

text \<open>
  Claim C5.  The OCR fallback is called by \<open>ParseManager.load\<close> on the pages of the parse
  step.  Every such page whose text has at least 25 characters is returned unchanged,
  content and metadata alike, whatever the OCR collaborators do; the list keeps its
  length.
\<close>

theorem ocr_keeps_long_parsed_pages:
  assumes "parse_pages lib plib file_path = Inr docs"
    and "i < length docs"
    and "25 \<le> length (page_content (docs ! i))"
  shows "length (fst (ocr_pages_if_empty olib file_path docs)) = length docs
       \<and> fst (ocr_pages_if_empty olib file_path docs) ! i = docs ! i"
proof -
  from assms(2) have "docs ! i \<in> set docs" by simp
  with assms(1) have "strip (page_content (docs ! i)) = page_content (docs ! i)"
    by (rule parse_pages_stripped)
  with assms(3) have "25 \<le> length (strip (page_content (docs ! i)))" by simp
  with assms(2) show ?thesis
    by (rule ocr_keeps_long_stripped_text)
qed

lemma ex_parse_pages:
  "parse_pages ex_lib ex_parse_lib ''manual.pdf'' = Inr [ex_parsed_page, ex_parsed_blank_page]"
  by (simp add: parse_pages_def pymupdf_load_def ex_parse_lib_def pymupdf_document_def
        clean_page_text_def section_header_def ex_lib_def is_blank_def strip_def isspace_def
        last_segment_def ex_parsed_page_def ex_parsed_blank_page_def)

theorem ocr_keeps_long_parsed_pages_witness:
  "parse_pages ex_lib ex_parse_lib ''manual.pdf'' = Inr [ex_parsed_page, ex_parsed_blank_page]
   \<and> 0 < length [ex_parsed_page, ex_parsed_blank_page]
   \<and> 25 \<le> length (page_content ([ex_parsed_page, ex_parsed_blank_page] ! 0))
   \<and> length (fst (ocr_pages_if_empty ex_ocr_lib ''manual.pdf''
                     [ex_parsed_page, ex_parsed_blank_page])) = 2
   \<and> fst (ocr_pages_if_empty ex_ocr_lib ''manual.pdf'' [ex_parsed_page, ex_parsed_blank_page]) ! 0
       = ex_parsed_page"
proof -
  have h1: "0 < length [ex_parsed_page, ex_parsed_blank_page]" by simp
  have h2: "25 \<le> length (page_content ([ex_parsed_page, ex_parsed_blank_page] ! 0))"
    by (simp add: ex_parsed_page_def)
  from ocr_keeps_long_parsed_pages [OF ex_parse_pages h1 h2, of ex_ocr_lib] ex_parse_pages h1 h2
  show ?thesis by simp
qed

text \<open>So \<open>ParseManager.load\<close> returns the text of every such page as the parser read it.\<close>

lemma ParseManager_load_keeps_long_pages:
  assumes "parse_pages lib plib file_path = Inr docs"
    and "i < length docs"
    and "25 \<le> length (page_content (docs ! i))"
  shows "\<exists>out. ParseManager_load lib plib olib file_path = Inr out
             \<and> length out = length docs
             \<and> page_content (out ! i) = page_content (docs ! i)"
proof -
  from assms(2) have "docs ! i \<in> set docs" by simp
  with assms(1) have "strip (page_content (docs ! i)) = page_content (docs ! i)"
    by (rule parse_pages_stripped)
  with assms(3) have long: "25 \<le> length (strip (page_content (docs ! i)))" by simp
  from ocr_keeps_long_stripped_text [OF assms(2) long, of olib file_path]
  show ?thesis
    using assms(1,2) by (simp add: ParseManager_load_def fix_metadata_def)
qed

text \<open>
  The threshold is compared with the stripped text.  A page that no parser emits, made of
  a six-character caption and 24 newlines and passed to the stage directly, has 30
  characters and is sent to OCR all the same.
\<close>

lemma ocr_threshold_counts_stripped_text:
  "25 \<le> length (page_content ex_caption_page)
   \<and> page_content (fst (ocr_pages_if_empty ex_ocr_lib ''manual.pdf'' [ex_caption_page]) ! 0)
       = ''Cover page: service manual''"
  by (simp add: ocr_pages_if_empty_def ex_ocr_lib_def ocr_one_def ex_caption_strip ex_clean0
        MIN_TEXT_CHARS_def ocr_document_def)
     (simp add: ex_caption_page_def)

text \<open>
  Claim C6.  Take a page whose (stripped) text is shorter than 25 characters; by
  \<open>strip_length_le\<close> this covers every page whose raw text is shorter than 25.  When the PDF
  opens, the page renders and recognition returns a text, then: if the cleaned text has at
  least 5 characters the page's content becomes the cleaned recognised text and its
  metadata has \<open>parser = "ocr"\<close> and \<open>ocr = True\<close>; if it has fewer than 5 the original
  page is kept unchanged.
\<close>

theorem ocr_replaces_short_pages:
  assumes "fitz_open lib file_path = Inr pdf"
    and "i < length docs"
    and "length (strip (page_content (docs ! i))) < 25"
    and "render_page lib pdf i = Inr img"
    and "image_to_string lib img = Inr recognized"
  shows "(5 \<le> length (clean_ocr_text recognized) \<longrightarrow>
            page_content (fst (ocr_pages_if_empty lib file_path docs) ! i)
              = clean_ocr_text recognized
          \<and> metadata (fst (ocr_pages_if_empty lib file_path docs) ! i) ''parser''
              = Some (PStr ''ocr'')
          \<and> metadata (fst (ocr_pages_if_empty lib file_path docs) ! i) ''ocr''
              = Some (PBool True))
       \<and> (length (clean_ocr_text recognized) < 5 \<longrightarrow>
            fst (ocr_pages_if_empty lib file_path docs) ! i = docs ! i)"
  using assms
  by (simp add: ocr_pages_if_empty_def ocr_loop_nth ocr_one_def MIN_TEXT_CHARS_def
        ocr_document_def)

theorem ocr_replaces_short_pages_witness:
  "length (strip (page_content ex_caption_page)) < 25
   \<and> 5 \<le> length (clean_ocr_text ''Cover   page:  service manual'')
   \<and> page_content (fst (ocr_pages_if_empty ex_ocr_lib ''manual.pdf'' [ex_caption_page]) ! 0)
       = ''Cover page: service manual''
   \<and> metadata (fst (ocr_pages_if_empty ex_ocr_lib ''manual.pdf'' [ex_caption_page]) ! 0) ''parser''
       = Some (PStr ''ocr'')
   \<and> metadata (fst (ocr_pages_if_empty ex_ocr_lib ''manual.pdf'' [ex_caption_page]) ! 0) ''ocr''
       = Some (PBool True)
   \<and> length (clean_ocr_text ''  ok '') < 5
   \<and> fst (ocr_pages_if_empty ex_ocr_lib ''manual.pdf'' [ex_long_page, ex_caption_page]) ! 1
       = ex_caption_page"
proof -
  have op: "fitz_open ex_ocr_lib ''manual.pdf'' = Inr ()"
    by (simp add: ex_ocr_lib_def)
  have short: "length (strip (page_content ex_caption_page)) < 25"
    by (simp add: ex_caption_strip)
  have r0: "render_page ex_ocr_lib () 0 = Inr 0" and r1: "render_page ex_ocr_lib () 1 = Inr 1"
    by (simp_all add: ex_ocr_lib_def)
  have t0: "image_to_string ex_ocr_lib 0 = Inr ''Cover   page:  service manual''"
    and t1: "image_to_string ex_ocr_lib 1 = Inr ''  ok ''"
    by (simp_all add: ex_ocr_lib_def)
  have a: "0 < length [ex_caption_page]"
    and a': "length (strip (page_content ([ex_caption_page] ! 0))) < 25"
    using short by simp_all
  have b: "1 < length [ex_long_page, ex_caption_page]"
    and b': "length (strip (page_content ([ex_long_page, ex_caption_page] ! 1))) < 25"
    using short by simp_all
  from ocr_replaces_short_pages [OF op a a' r0 t0] ocr_replaces_short_pages [OF op b b' r1 t1]
    short
  show ?thesis
    by (simp add: ex_clean0 ex_clean1)
qed

text \<open>
  Claim C10.  The page passed to \<open>load_page\<close> is the document's position in the list: the
  pages loaded are exactly the positions of the short documents, in order, whatever their
  \<open>page\<close> metadata says.  A short document at position \<open>i\<close> labelled page \<open>p\<close> receives the
  text recognised on page index \<open>i\<close> and keeps the label \<open>p\<close>.
\<close>

theorem ocr_renders_by_list_position:
  assumes "fitz_open lib file_path = Inr pdf"
    and "i < length docs"
    and "length (strip (page_content (docs ! i))) < 25"
    and "metadata (docs ! i) ''page'' = Some (PInt p)"
    and "render_page lib pdf i = Inr img"
    and "image_to_string lib img = Inr recognized"
    and "5 \<le> length (clean_ocr_text recognized)"
  shows "snd (ocr_pages_if_empty lib file_path docs)
           = [j \<leftarrow> [0..<length docs]. length (strip (page_content (docs ! j))) < 25]
       \<and> i \<in> set (snd (ocr_pages_if_empty lib file_path docs))
       \<and> page_content (fst (ocr_pages_if_empty lib file_path docs) ! i)
           = clean_ocr_text recognized
       \<and> metadata (fst (ocr_pages_if_empty lib file_path docs) ! i) ''page'' = Some (PInt p)"
proof -
  have loaded: "snd (ocr_pages_if_empty lib file_path docs)
           = [j \<leftarrow> [0..<length docs]. length (strip (page_content (docs ! j))) < 25]"
    using assms(1) by (simp add: ocr_pages_if_empty_def ocr_loop_loaded MIN_TEXT_CHARS_def)
  have mem: "i \<in> set (snd (ocr_pages_if_empty lib file_path docs))"
    unfolding loaded using assms(2,3) by simp
  have doc: "fst (ocr_pages_if_empty lib file_path docs) ! i
           = ocr_document file_path (docs ! i) (PInt p) (clean_ocr_text recognized)"
    using assms
    by (simp add: ocr_pages_if_empty_def ocr_loop_nth ocr_one_def MIN_TEXT_CHARS_def
          dict_get_def)
  show ?thesis
    using loaded mem by (simp add: doc ocr_document_def)
qed

text \<open>The caption page is labelled page 3 but stands first in the list: page index 0 (the
  cover) is rendered, not index 2, and the text of the cover is stored under the label 3.\<close>

theorem ocr_renders_by_list_position_witness:
  "metadata ([ex_caption_page] ! 0) ''page'' = Some (PInt 3)
   \<and> snd (ocr_pages_if_empty ex_ocr_lib ''manual.pdf'' [ex_caption_page]) = [0]
   \<and> page_content (fst (ocr_pages_if_empty ex_ocr_lib ''manual.pdf'' [ex_caption_page]) ! 0)
       = ''Cover page: service manual''
   \<and> metadata (fst (ocr_pages_if_empty ex_ocr_lib ''manual.pdf'' [ex_caption_page]) ! 0) ''page''
       = Some (PInt 3)
   \<and> (case render_page ex_ocr_lib () 2 of
         Inr img \<Rightarrow> (case image_to_string ex_ocr_lib img of
                       Inr t \<Rightarrow> clean_ocr_text t = ''Rear caliper bolt 35 Nm''
                     | Inl e \<Rightarrow> False)
       | Inl e \<Rightarrow> False)"
proof -
  have op: "fitz_open ex_ocr_lib ''manual.pdf'' = Inr ()"
    by (simp add: ex_ocr_lib_def)
  have a: "0 < length [ex_caption_page]" by simp
  have short: "length (strip (page_content ([ex_caption_page] ! 0))) < 25"
    by (simp add: ex_caption_strip)
  have pg: "metadata ([ex_caption_page] ! 0) ''page'' = Some (PInt 3)"
    by (simp add: ex_caption_page_def)
  have r0: "render_page ex_ocr_lib () 0 = Inr 0"
    by (simp add: ex_ocr_lib_def)
  have t0: "image_to_string ex_ocr_lib 0 = Inr ''Cover   page:  service manual''"
    by (simp add: ex_ocr_lib_def)
  have n0: "5 \<le> length (clean_ocr_text ''Cover   page:  service manual'')"
    by (simp add: ex_clean0)
  have other: "(case render_page ex_ocr_lib () 2 of
         Inr img \<Rightarrow> (case image_to_string ex_ocr_lib img of
                       Inr t \<Rightarrow> clean_ocr_text t = ''Rear caliper bolt 35 Nm''
                     | Inl e \<Rightarrow> False)
       | Inl e \<Rightarrow> False)"
    by (simp add: ex_ocr_lib_def ex_clean2)
  from ocr_renders_by_list_position [OF op a short pg r0 t0 n0] pg other short
  show ?thesis
    by (simp add: ex_clean0)
qed

section \<open>Properties of the string operations\<close>

lemma lower_char_idem: "lower_char (lower_char c) = lower_char c"
  by (auto simp: lower_char_def Let_def)

lemma same_letter_iff: "same_letter x y \<longleftrightarrow> lower_char x = lower_char y"
proof
  assume "same_letter x y"
  then show "lower_char x = lower_char y"
    by (auto simp: same_letter_def lower_char_idem)
next
  assume "lower_char x = lower_char y"
  then show "same_letter x y"
    unfolding same_letter_def lower_char_def Let_def
    by (auto split: if_splits)
qed

text \<open>Equality up to letter case is equality of the lower-cased strings.\<close>

lemma eq_upto_case_lower: "eq_upto_case a b \<longleftrightarrow> lower a = lower b"
proof -
  have "lower a = lower b \<longleftrightarrow> list_all2 (=) (map lower_char a) (map lower_char b)"
    by (simp add: lower_def list_all2_eq)
  also have "\<dots> \<longleftrightarrow> list_all2 (\<lambda>x y. lower_char x = lower_char y) a b"
    by (simp add: list_all2_map1 list_all2_map2)
  finally show ?thesis
    by (simp add: eq_upto_case_def same_letter_iff [abs_def])
qed

lemma str_in_sublist: "str_in k t \<longleftrightarrow> sublist k t"
  by (induction t) (auto simp: sublist_Cons_right)

lemma lower_append: "lower (a @ b) = lower a @ lower b"
  by (simp add: lower_def)

lemma SPEC_KEYWORDS_lower: "k \<in> set SPEC_KEYWORDS \<Longrightarrow> lower k = k"
  unfolding SPEC_KEYWORDS_def
  by (auto simp: lower_def lower_char_def)

section \<open>Properties of the query classifier\<close>

text \<open>
  Claim C8.  When the query contains a text that equals a term of \<open>SPEC_KEYWORDS\<close> up to
  letter case, \<open>classify_query\<close> returns \<open>SPEC\<close> and the list of prompts sent to the
  generative model is empty: the first rule decides, whatever the other collaborators are.
\<close>

theorem classify_keyword_is_spec:
  assumes "k \<in> set SPEC_KEYWORDS"
    and "sublist u query"
    and "eq_upto_case u k"
  shows "classify_query lib query = (SPEC, [])"
proof -
  from assms(2) obtain ps ss where q: "query = ps @ u @ ss"
    by (auto simp: sublist_def)
  have "lower u = k"
    using assms(1,3) by (simp add: eq_upto_case_lower SPEC_KEYWORDS_lower)
  then have "sublist k (lower query)"
    unfolding sublist_def q lower_append by blast
  then have "list_ex (\<lambda>keyword. str_in keyword (lower query)) SPEC_KEYWORDS"
    using assms(1) unfolding list_ex_iff str_in_sublist by blast
  then show ?thesis
    by (simp add: classify_query_def)
qed

theorem classify_keyword_is_spec_witness:
  "''torque'' \<in> set SPEC_KEYWORDS
   \<and> sublist ''Torque'' ''What is the Torque for the rear caliper bolt?''
   \<and> eq_upto_case ''Torque'' ''torque''
   \<and> classify_query ex_lib ''What is the Torque for the rear caliper bolt?'' = (SPEC, [])"
proof -
  have k: "''torque'' \<in> set SPEC_KEYWORDS"
    by (simp add: SPEC_KEYWORDS_def)
  have "''What is the Torque for the rear caliper bolt?''
          = ''What is the '' @ ''Torque'' @ '' for the rear caliper bolt?''"
    by simp
  then have s: "sublist ''Torque'' ''What is the Torque for the rear caliper bolt?''"
    unfolding sublist_def by blast
  have e: "eq_upto_case ''Torque'' ''torque''"
    by (simp add: eq_upto_case_def same_letter_def lower_char_def char_of_eq_iff)
  from classify_keyword_is_spec [OF k s e, of ex_lib] k s e show ?thesis
    by simp
qed

section \<open>Properties of the chunker\<close>

lemma make_chunk_section:
  assumes "metadata d ''section'' = Some (PStr s)" and "s \<noteq> []"
  shows "make_chunk lib d n chunk =
           \<lparr> page_content = strip chunk,
             metadata = (metadata d)(''chunk_index'' \<mapsto> PInt (int n),
                              ''parent_page'' \<mapsto> dict_get (metadata d) ''page'' (PStr ''?''),
                              ''original_section'' \<mapsto> PStr s) \<rparr>"
  using assms by (simp add: make_chunk_def dict_get_def)

lemma make_chunk_section_changed:
  assumes "metadata (make_chunk lib d n chunk) ''section'' \<noteq> metadata d ''section''"
  shows "\<not> truthy (dict_get (metadata d) ''section'' (PStr ''''))"
  using assms by (auto simp: make_chunk_def Let_def split: if_splits option.splits)

text \<open>
  Claim C7.  Let \<open>c\<close> be a chunk produced from page \<open>d\<close> of the input.  It is part of
  the output.  If the page's \<open>section\<close> is a non-empty string, the chunk's \<open>section\<close> and
  \<open>original_section\<close> are that string, and the chunks of the page do not depend on the
  regular-expression matcher at all (the header pattern is not applied).  A chunk whose
  \<open>section\<close> differs from the page's comes from a page whose \<open>section\<close> is missing or
  empty.
\<close>

theorem chunker_keeps_section:
  assumes "d \<in> set docs"
    and "c \<in> set (split_page lib d)"
  shows "c \<in> set (split_documents lib docs)
       \<and> (\<forall>s. metadata d ''section'' = Some (PStr s) \<and> s \<noteq> [] \<longrightarrow>
             metadata c ''section'' = Some (PStr s)
           \<and> metadata c ''original_section'' = Some (PStr s)
           \<and> (\<forall>r. split_page (lib\<lparr> re_search := r \<rparr>) d = split_page lib d))
       \<and> (metadata c ''section'' \<noteq> metadata d ''section'' \<longrightarrow>
             \<not> truthy (dict_get (metadata d) ''section'' (PStr '''')))"
proof -
  from assms(2) obtain n chunk where c: "c = make_chunk lib d n chunk"
    by (auto simp: split_page_def)
  have 1: "c \<in> set (split_documents lib docs)"
    using assms by (auto simp: split_documents_def)
  have 2: "metadata c ''section'' = Some (PStr s) \<and> metadata c ''original_section'' = Some (PStr s)
        \<and> (\<forall>r. split_page (lib\<lparr> re_search := r \<rparr>) d = split_page lib d)"
    if "metadata d ''section'' = Some (PStr s)" and "s \<noteq> []" for s
    using that by (simp add: c split_page_def make_chunk_section)
  have 3: "\<not> truthy (dict_get (metadata d) ''section'' (PStr ''''))"
    if "metadata c ''section'' \<noteq> metadata d ''section''"
    using that unfolding c by (rule make_chunk_section_changed)
  from 1 2 3 show ?thesis by blast
qed

lemma ex_split_page:
  "split_page ex_lib ex_section_page =
     [make_chunk ex_lib ex_section_page 0 ''SECTION 204: Front Suspension.'',
      make_chunk ex_lib ex_section_page 1 '' Tighten bolt to 35 Nm.'']"
  by (simp add: split_page_def ex_lib_def ex_section_page_def)

theorem chunker_keeps_section_witness:
  "ex_section_page \<in> set [ex_long_page, ex_section_page]
   \<and> make_chunk ex_lib ex_section_page 0 ''SECTION 204: Front Suspension.''
       \<in> set (split_page ex_lib ex_section_page)
   \<and> re_search ex_lib SECTION_PATTERN ''SECTION 204: Front Suspension.''
       = Some ''SECTION 204: Front Suspension''
   \<and> metadata ex_section_page ''section'' = Some (PStr ''SECTION 100: General'')
   \<and> metadata (make_chunk ex_lib ex_section_page 0 ''SECTION 204: Front Suspension.'') ''section''
       = Some (PStr ''SECTION 100: General'')
   \<and> metadata (make_chunk ex_lib ex_section_page 0 ''SECTION 204: Front Suspension.'')
        ''original_section'' = Some (PStr ''SECTION 100: General'')
   \<and> make_chunk ex_lib ex_section_page 0 ''SECTION 204: Front Suspension.''
       \<in> set (split_documents ex_lib [ex_long_page, ex_section_page])"
proof -
  have d: "ex_section_page \<in> set [ex_long_page, ex_section_page]" by simp
  have c: "make_chunk ex_lib ex_section_page 0 ''SECTION 204: Front Suspension.''
       \<in> set (split_page ex_lib ex_section_page)"
    by (simp add: ex_split_page)
  have r: "re_search ex_lib SECTION_PATTERN ''SECTION 204: Front Suspension.''
       = Some ''SECTION 204: Front Suspension''"
    by (simp add: ex_lib_def)
  have s: "metadata ex_section_page ''section'' = Some (PStr ''SECTION 100: General'')"
    by (simp add: ex_section_page_def)
  from chunker_keeps_section [OF d c] d c r s show ?thesis
    by simp
qed

section \<open>Properties of the retriever\<close>

lemma min_and_range_Cons:
  "min_and_range (s # ss) =
     (Min (set (s # ss)),
      if Max (set (s # ss)) - Min (set (s # ss)) \<noteq> 0
      then Max (set (s # ss)) - Min (set (s # ss)) else 1)"
  by (simp only: min_and_range_def Let_def list.case Max.set_eq_fold Min.set_eq_fold)

text \<open>The divisor of the normalisation is never zero.\<close>

lemma min_and_range_nonzero: "snd (min_and_range xs) \<noteq> 0"
  by (cases xs) (simp_all add: min_and_range_def Let_def)

lemma retrieve_nth:
  assumes "vs query top_k = Inr results" and "i < length results"
  shows "retrieve vs query query_type top_k ! i =
           annotate (fst (min_and_range (map snd results)))
                    (snd (min_and_range (map snd results))) query (results ! i)"
  using assms by (simp add: retrieve_def case_prod_unfold Let_def)

lemma annotate_similarity:
  "metadata (annotate min_s range_s query (doc, distance)) ''faiss_similarity''
     = Some (PFloat (1 - (distance - min_s) / range_s))"
  by (simp add: annotate_def Let_def)

text \<open>
  Claim C3.  For a non-empty result set of the index, \<open>retrieve\<close> annotates every result;
  the divisor of the normalisation is not zero; a chunk at the minimum distance has
  \<open>faiss_similarity = 1\<close>; a chunk at the maximum distance has \<open>faiss_similarity = 0\<close> when
  the distances differ; and when all distances are equal every chunk has
  \<open>faiss_similarity = 1\<close>.
\<close>

theorem retrieve_min_max_normalization:
  assumes "vs query top_k = Inr results"
    and "i < length results"
  shows "length (retrieve vs query query_type top_k) = length results
       \<and> snd (min_and_range (map snd results)) \<noteq> 0
       \<and> (snd (results ! i) = Min (snd ` set results) \<longrightarrow>
            metadata (retrieve vs query query_type top_k ! i) ''faiss_similarity''
              = Some (PFloat 1))
       \<and> (snd (results ! i) = Max (snd ` set results)
            \<and> Max (snd ` set results) \<noteq> Min (snd ` set results) \<longrightarrow>
            metadata (retrieve vs query query_type top_k ! i) ''faiss_similarity''
              = Some (PFloat 0))
       \<and> ((\<forall>r \<in> set results. snd r = snd (results ! 0)) \<longrightarrow>
            metadata (retrieve vs query query_type top_k ! i) ''faiss_similarity''
              = Some (PFloat 1))"
proof -
  from assms(2) obtain r rs where res: "results = r # rs"
    by (cases results) auto
  define lo where "lo = Min (snd ` set results)"
  define hi where "hi = Max (snd ` set results)"
  have mr: "min_and_range (map snd results) = (lo, if hi - lo \<noteq> 0 then hi - lo else 1)"
    unfolding res lo_def hi_def list.map min_and_range_Cons by simp
  obtain doc distance where ri: "results ! i = (doc, distance)"
    by (cases "results ! i")
  have sim: "metadata (retrieve vs query query_type top_k ! i) ''faiss_similarity''
      = Some (PFloat (1 - (distance - lo) / (if hi - lo \<noteq> 0 then hi - lo else 1)))"
    by (simp only: retrieve_nth [where vs = vs and query = query and top_k = top_k, OF assms]
          mr fst_conv snd_conv ri annotate_similarity)
  have len: "length (retrieve vs query query_type top_k) = length results"
    using assms(1) by (simp add: retrieve_def case_prod_unfold Let_def)
  have c1: "metadata (retrieve vs query query_type top_k ! i) ''faiss_similarity'' = Some (PFloat 1)"
    if "snd (results ! i) = lo"
    using that by (simp add: sim ri)
  have c2: "metadata (retrieve vs query query_type top_k ! i) ''faiss_similarity'' = Some (PFloat 0)"
    if "snd (results ! i) = hi" and "hi \<noteq> lo"
    using that by (simp add: sim ri)
  have c3: "metadata (retrieve vs query query_type top_k ! i) ''faiss_similarity'' = Some (PFloat 1)"
    if all: "\<forall>r \<in> set results. snd r = snd (results ! 0)"
  proof -
    have "snd ` set results = {snd (results ! 0)}"
      using all res by auto
    then have "lo = snd (results ! 0)"
      by (simp add: lo_def)
    moreover have "snd (results ! i) = snd (results ! 0)"
      using all assms(2) by simp
    ultimately show ?thesis
      using c1 by simp
  qed
  from len min_and_range_nonzero c1 c2 c3 show ?thesis
    unfolding lo_def hi_def by blast
qed

lemma ex_index_results:
  "ex_index q k = Inr [(ex_chunk_a, 0.25), (ex_chunk_b, 0.75), (ex_chunk_c, 0.5)]"
  by (simp add: ex_index_def)

lemma ex_flat_index_results:
  "ex_flat_index q k = Inr [(ex_chunk_a, 0.5), (ex_chunk_b, 0.5)]"
  by (simp add: ex_flat_index_def)

theorem retrieve_min_max_normalization_witness:
  "metadata (retrieve ex_index ''caliper bolt torque'' ''spec'' 15 ! 0) ''faiss_similarity''
     = Some (PFloat 1)
   \<and> metadata (retrieve ex_index ''caliper bolt torque'' ''spec'' 15 ! 1) ''faiss_similarity''
     = Some (PFloat 0)
   \<and> metadata (retrieve ex_flat_index ''caliper bolt torque'' ''spec'' 15 ! 1) ''faiss_similarity''
     = Some (PFloat 1)
   \<and> length (retrieve ex_index ''caliper bolt torque'' ''spec'' 15) = 3"
proof -
  have i0: "0 < length [(ex_chunk_a, 0.25 :: real), (ex_chunk_b, 0.75), (ex_chunk_c, 0.5)]"
    and i1: "1 < length [(ex_chunk_a, 0.25 :: real), (ex_chunk_b, 0.75), (ex_chunk_c, 0.5)]"
    and j1: "1 < length [(ex_chunk_a, 0.5 :: real), (ex_chunk_b, 0.5)]"
    by simp_all
  from retrieve_min_max_normalization
         [where vs = ex_index and query = "''caliper bolt torque''" and top_k = 15
            and query_type = "''spec''", OF ex_index_results i0]
       retrieve_min_max_normalization
         [where vs = ex_index and query = "''caliper bolt torque''" and top_k = 15
            and query_type = "''spec''", OF ex_index_results i1]
       retrieve_min_max_normalization
         [where vs = ex_flat_index and query = "''caliper bolt torque''" and top_k = 15
            and query_type = "''spec''", OF ex_flat_index_results j1]
  show ?thesis
    by simp
qed

section \<open>Properties of the deduplication\<close>

text \<open>
  The dictionary built by the loop: its keys are distinct, they are the keys of the input,
  and the value stored under a key is the last item of the input with that key.
\<close>

lemma dedup_fold_invariant:
  fixes specs :: "SpecItem list"
  defines "unique \<equiv> fold (\<lambda>s unique. AList.update (spec_key s) s unique) specs []"
  shows "distinct (map fst unique)
       \<and> fst ` set unique = spec_key ` set specs
       \<and> (\<forall>k v. (k, v) \<in> set unique \<longrightarrow>
             spec_key v = k
           \<and> (\<exists>pre post. specs = pre @ v # post \<and> (\<forall>x \<in> set post. spec_key x \<noteq> k)))"
  unfolding unique_def
proof (induction specs rule: rev_induct)
  case Nil
  then show ?case by simp
next
  case (snoc x xs)
  let ?al = "fold (\<lambda>s unique. AList.update (spec_key s) s unique) xs []"
  let ?al' = "AList.update (spec_key x) x ?al"
  have d: "distinct (map fst ?al)"
    using snoc by (rule conjunct1)
  have keys: "fst ` set ?al = spec_key ` set xs"
    using snoc by (rule conjunct1 [OF conjunct2])
  have "\<forall>k v. (k, v) \<in> set ?al \<longrightarrow>
             spec_key v = k
           \<and> (\<exists>pre post. xs = pre @ v # post \<and> (\<forall>x \<in> set post. spec_key x \<noteq> k))"
    using snoc by (rule conjunct2 [OF conjunct2])
  then have last: "\<And>k v. (k, v) \<in> set ?al \<Longrightarrow>
             spec_key v = k
           \<and> (\<exists>pre post. xs = pre @ v # post \<and> (\<forall>x \<in> set post. spec_key x \<noteq> k))"
    by (rule allE, elim allE impE) assumption+
  have d': "distinct (map fst ?al')"
    using d by (rule distinct_update)
  have keys': "fst ` set ?al' = spec_key ` set (xs @ [x])"
    by (simp add: dom_update keys)
  have last': "\<forall>k v. (k, v) \<in> set ?al' \<longrightarrow>
             spec_key v = k
           \<and> (\<exists>pre post. xs @ [x] = pre @ v # post \<and> (\<forall>y \<in> set post. spec_key y \<noteq> k))"
  proof (intro allI impI)
    fix k v
    assume mem: "(k, v) \<in> set ?al'"
    from mem d' have "map_of ?al' k = Some v" by simp
    then have upd: "((map_of ?al)(spec_key x \<mapsto> x)) k = Some v"
      by (simp add: update_conv')
    show "spec_key v = k
           \<and> (\<exists>pre post. xs @ [x] = pre @ v # post \<and> (\<forall>y \<in> set post. spec_key y \<noteq> k))"
    proof (cases "k = spec_key x")
      case True
      with upd have "v = x" by simp
      moreover have "xs @ [x] = xs @ x # []" and "\<forall>y \<in> set []. spec_key y \<noteq> k"
        by simp_all
      ultimately show ?thesis
        using True by blast
    next
      case False
      with upd have "map_of ?al k = Some v" by simp
      with d have "(k, v) \<in> set ?al" by simp
      from last [OF this] obtain pre post
        where "spec_key v = k" and "xs = pre @ v # post" and "\<forall>y \<in> set post. spec_key y \<noteq> k"
        by blast
      with False have "xs @ [x] = pre @ v # (post @ [x])"
        and "\<forall>y \<in> set (post @ [x]). spec_key y \<noteq> k"
        by auto
      with \<open>spec_key v = k\<close> show ?thesis by blast
    qed
  qed
  have step: "fold (\<lambda>s unique. AList.update (spec_key s) s unique) (xs @ [x]) [] = ?al'"
    by simp
  from conjI [OF d' conjI [OF keys' last']] show ?case
    unfolding step .
qed

lemma spec_key_eq_upto_case:
  "spec_key a = spec_key b \<longleftrightarrow>
     eq_upto_case (component a) (component b)
   \<and> eq_upto_case (value' a) (value' b)
   \<and> eq_upto_case (unit a) (unit b)"
  by (simp add: spec_key_def eq_upto_case_lower)

lemma ex_spec_keys:
  "spec_key ex_spec_upper = (''rear caliper bolt'', ''35'', ''nm'')"
  "spec_key ex_spec_other = (''front axle nut'', ''110'', ''nm'')"
  "spec_key ex_spec_lower = (''rear caliper bolt'', ''35'', ''nm'')"
  by (simp_all add: spec_key_def ex_spec_upper_def ex_spec_other_def ex_spec_lower_def
        lower_def lower_char_def char_of_eq_iff)

lemma ex_dedup:
  "dedup_specs [ex_spec_upper, ex_spec_other, ex_spec_lower] = [ex_spec_lower, ex_spec_other]"
  by (simp add: dedup_specs_def ex_spec_keys)

lemma ex_upper_lower_case:
  "eq_upto_case (component ex_spec_upper) (component ex_spec_lower)"
  "eq_upto_case (value' ex_spec_upper) (value' ex_spec_lower)"
  "eq_upto_case (unit ex_spec_upper) (unit ex_spec_lower)"
  by (simp_all add: eq_upto_case_def same_letter_def ex_spec_upper_def ex_spec_lower_def
        lower_char_def char_of_eq_iff)

section \<open>Properties of the reranker\<close>

text \<open>\<open>retrieve\<close> stores the distance under \<open>faiss_distance\<close> and leaves the key \<open>score\<close> as
  it was.\<close>

lemma annotate_score_key:
  "metadata (annotate min_s range_s query r) ''score'' = metadata (fst r) ''score''"
  by (cases r) (simp add: annotate_def Let_def)

lemma annotate_distance:
  "metadata (annotate min_s range_s query r) ''faiss_distance'' = Some (PFloat (snd r))"
  by (cases r) (simp add: annotate_def Let_def)

lemma annotate_content:
  "page_content (annotate min_s range_s query r) = page_content (fst r)"
  by (cases r) (simp add: annotate_def Let_def)

lemma retrieve_score_key:
  assumes "vs query top_k = Inr results"
    and "\<forall>r \<in> set results. metadata (fst r) ''score'' = None"
    and "d \<in> set (retrieve vs query query_type top_k)"
  shows "metadata d ''score'' = None"
  using assms by (auto simp: retrieve_def case_prod_unfold Let_def annotate_score_key)

text \<open>Without the key \<open>score\<close> the semantic part of the score is the constant
  \<open>1 / (1 + 1.0)\<close>.\<close>

lemma score_document_default:
  assumes "metadata d ''score'' = None"
  shows "score_document lib d query query_type
           = Inr (0.7 * (1 / (1 + 1)) + 0.3 * boost_of lib (lower (page_content d)) (lower query))"
  using assms by (simp add: score_document_def dict_get_def Let_def)

lemma char_eq_char_of: "c = char_of (n::nat) \<longleftrightarrow> take_bit 8 n = of_char c"
  using char_of_eq_iff [of n c] by auto

lemmas lower_eval = lower_def lower_char_def char_of_eq_iff char_eq_char_of

lemma ex_boost_a:
  "boost_of ex_lib (lower (page_content ex_chunk_a)) (lower ''caliper bolt torque'') = 0.85"
  by (simp add: boost_of_def contains_real_spec_def SPEC_NUMBER_PATTERNS_def ex_lib_def
        ex_chunk_a_def lower_eval py_split_def isspace_def)


lemma ex_boost_b:
  "boost_of ex_lib (lower (page_content ex_chunk_b)) (lower ''caliper bolt torque'') = 0"
  by (simp add: boost_of_def contains_real_spec_def SPEC_NUMBER_PATTERNS_def ex_lib_def
        ex_chunk_b_def lower_eval py_split_def isspace_def)

lemma ex_boost_c:
  "boost_of ex_lib (lower (page_content ex_chunk_c)) (lower ''caliper bolt torque'') = 0"
  by (simp add: boost_of_def contains_real_spec_def SPEC_NUMBER_PATTERNS_def ex_lib_def
        ex_chunk_c_def lower_eval py_split_def isspace_def)

lemma ex_retrieve:
  "retrieve ex_index query query_type top_k =
     [annotate (1/4) (1/2) query (ex_chunk_a, 1/4),
      annotate (1/4) (1/2) query (ex_chunk_b, 3/4),
      annotate (1/4) (1/2) query (ex_chunk_c, 1/2)]"
  by (simp add: retrieve_def ex_index_def min_and_range_def)

lemma ex_no_score_key:
  "metadata ex_chunk_a ''score'' = None"
  "metadata ex_chunk_b ''score'' = None"
  "metadata ex_chunk_c ''score'' = None"
  by (simp_all add: ex_chunk_a_def ex_chunk_b_def ex_chunk_c_def)

text \<open>
  Claim C1, evaluated on the code.  The index returns three chunks at distances 0.25, 0.75
  and 0.5, and \<open>retrieve\<close> stores these under \<open>faiss_distance\<close>.  \<open>score_document\<close> reads
  the key \<open>score\<close>, which nothing writes, so every chunk gets the semantic part
  \<open>0.7 * (1 / (1 + 1.0)) = 0.35\<close>: the first chunk scores \<open>0.35 + 0.3 * 0.85 = 0.605\<close>, not
  \<open>0.7 * (1 / (1 + 0.25)) + 0.3 * 0.85 = 0.815\<close>, and the chunks at distances 0.75 and 0.5
  tie at 0.35 and keep their order.
\<close>

theorem rerank_ignores_index_distance:
  "map (\<lambda>d. metadata d ''faiss_distance'') (retrieve ex_index ''caliper bolt torque'' ''spec'' 15)
     = [Some (PFloat 0.25), Some (PFloat 0.75), Some (PFloat 0.5)]
   \<and> (case rerank_documents ex_lib (retrieve ex_index ''caliper bolt torque'' ''spec'' 15)
              ''caliper bolt torque'' ''spec'' of
         Inr ranked \<Rightarrow>
           map (\<lambda>d. (page_content d, hybrid_score d)) ranked
             = [(page_content ex_chunk_a, 0.605),
                (page_content ex_chunk_b, 0.35),
                (page_content ex_chunk_c, 0.35)]
       | Inl e \<Rightarrow> False)
   \<and> (0.605 :: real) \<noteq> 0.7 * (1 / (1 + 0.25))
         + 0.3 * boost_of ex_lib (lower (page_content ex_chunk_a)) (lower ''caliper bolt torque'')"
proof -
  let ?q = "''caliper bolt torque''"
  let ?A = "annotate (1/4) (1/2) ?q (ex_chunk_a, 1/4)"
  let ?B = "annotate (1/4) (1/2) ?q (ex_chunk_b, 3/4)"
  let ?C = "annotate (1/4) (1/2) ?q (ex_chunk_c, 1/2)"
  have sa: "score_document ex_lib ?A ?q ''spec'' = Inr 0.605"
    by (simp add: score_document_default annotate_score_key annotate_content ex_no_score_key
          ex_boost_a)
  have sb: "score_document ex_lib ?B ?q ''spec'' = Inr 0.35"
    by (simp add: score_document_default annotate_score_key annotate_content ex_no_score_key
          ex_boost_b)
  have sc: "score_document ex_lib ?C ?q ''spec'' = Inr 0.35"
    by (simp add: score_document_default annotate_score_key annotate_content ex_no_score_key
          ex_boost_c)
  have dist: "map (\<lambda>d. metadata d ''faiss_distance'') (retrieve ex_index ?q ''spec'' 15)
     = [Some (PFloat 0.25), Some (PFloat 0.75), Some (PFloat 0.5)]"
    by (simp add: ex_retrieve annotate_distance)
  have ranked: "rerank_documents ex_lib (retrieve ex_index ?q ''spec'' 15) ?q ''spec''
     = Inr [?A\<lparr> metadata := (metadata ?A)(''hybrid_score'' \<mapsto> PFloat 0.605) \<rparr>,
            ?B\<lparr> metadata := (metadata ?B)(''hybrid_score'' \<mapsto> PFloat 0.35) \<rparr>,
            ?C\<lparr> metadata := (metadata ?C)(''hybrid_score'' \<mapsto> PFloat 0.35) \<rparr>]"
    by (simp add: rerank_documents_def ex_retrieve sa sb sc hybrid_score_def)
  show ?thesis
    by (simp add: dist ranked hybrid_score_def annotate_content ex_boost_a)
qed

section \<open>Properties of the query processor\<close>

text \<open>The exceptions that can leave the pipeline once an index is present.\<close>

lemma log_initial_docs_error:
  "log_initial_docs ds = Some e \<Longrightarrow> e = TypeError \<or> e = ValueError"
proof (induction ds)
  case Nil
  then show ?case by simp
next
  case (Cons d ds)
  then show ?case
    by (cases "dict_get (metadata d) ''score'' (PFloat 1.0)") (auto split: option.splits)
qed

lemma py_float_error:
  "py_float lib v = Inl e \<Longrightarrow> e = TypeError \<or> e = ValueError"
  by (cases v) (auto split: option.splits)

lemma score_document_error:
  "score_document lib d query query_type = Inl e \<Longrightarrow>
     e = TypeError \<or> e = ValueError \<or> e = ZeroDivisionError"
  by (auto simp: score_document_def Let_def split: sum.splits if_splits dest: py_float_error)

lemma score_all_error:
  "score_all lib ds query query_type = Inl e \<Longrightarrow>
     e = TypeError \<or> e = ValueError \<or> e = ZeroDivisionError"
proof (induction ds arbitrary: e)
  case Nil
  then show ?case by simp
next
  case (Cons d ds)
  then show ?case
    by (auto split: sum.splits dest: score_document_error)
qed

lemma rerank_documents_error:
  "rerank_documents lib ds query query_type = Inl e \<Longrightarrow>
     e = TypeError \<or> e = ValueError \<or> e = ZeroDivisionError"
  by (auto simp: rerank_documents_def split: sum.splits dest: score_all_error)

lemma log_initial_docs_no_score:
  "\<forall>d \<in> set ds. metadata d ''score'' = None \<Longrightarrow> log_initial_docs ds = None"
  by (induction ds) (simp_all add: dict_get_def)

lemma score_all_no_score:
  "\<forall>d \<in> set ds. metadata d ''score'' = None \<Longrightarrow>
     \<exists>ds'. score_all lib ds query query_type = Inr ds'"
  by (induction ds) (auto simp: score_document_default)

lemma rerank_documents_no_score:
  "\<forall>d \<in> set ds. metadata d ''score'' = None \<Longrightarrow>
     \<exists>ds'. rerank_documents lib ds query query_type = Inr ds'"
  using score_all_no_score [of ds lib query query_type]
  by (auto simp: rerank_documents_def)

lemma retrieve_no_score:
  assumes "\<forall>results. vs query top_k = Inr results \<longrightarrow>
             (\<forall>r \<in> set results. metadata (fst r) ''score'' = None)"
  shows "\<forall>d \<in> set (retrieve vs query query_type top_k). metadata d ''score'' = None"
proof (cases "vs query top_k")
  case (Inl e)
  then show ?thesis by (simp add: retrieve_def)
next
  case (Inr results)
  with assms have "\<forall>r \<in> set results. metadata (fst r) ''score'' = None" by simp
  with Inr show ?thesis
    by (auto simp: retrieve_def case_prod_unfold Let_def annotate_score_key)
qed

text \<open>Every list \<open>answer_query\<close> returns is the deduplication of an extracted list.\<close>

lemma answer_query_dedups:
  "fst (answer_query lib self query) = Inr out \<Longrightarrow> \<exists>specs. out = dedup_specs specs"
  by (auto simp: answer_query_def Let_def split: option.splits sum.splits)

lemma answer_query_no_index:
  "vectorstore self = None \<Longrightarrow> answer_query lib self query = (Inl not_initialized, self)"
  by (simp add: answer_query_def)

lemma answer_query_with_index:
  assumes "vectorstore self = Some vs"
  shows "fst (answer_query lib self query) \<noteq> Inl not_initialized"
proof
  assume raised: "fst (answer_query lib self query) = Inl not_initialized"
  let ?qt = "QueryType_value (fst (classify_query lib query))"
  let ?docs = "retrieve vs query ?qt 15"
  have "not_initialized = TypeError \<or> not_initialized = ValueError
      \<or> not_initialized = ZeroDivisionError"
  proof (cases "log_initial_docs ?docs")
    case (Some e)
    with raised assms have "e = not_initialized"
      by (simp add: answer_query_def Let_def)
    with log_initial_docs_error [OF Some] show ?thesis by auto
  next
    case None
    show ?thesis
    proof (cases "rerank_documents lib ?docs query ?qt")
      case (Inl e)
      with raised assms None have "e = not_initialized"
        by (simp add: answer_query_def Let_def)
      with rerank_documents_error [OF Inl] show ?thesis by auto
    next
      case (Inr ranked)
      with raised assms None show ?thesis
        by (simp add: answer_query_def Let_def)
    qed
  qed
  then show False
    by (simp add: not_initialized_def)
qed

lemma answer_query_returns:
  assumes "vectorstore self = Some vs"
    and "\<forall>results. vs query 15 = Inr results \<longrightarrow>
             (\<forall>r \<in> set results. metadata (fst r) ''score'' = None)"
  shows "\<exists>specs. fst (answer_query lib self query) = Inr specs"
proof -
  let ?qt = "QueryType_value (fst (classify_query lib query))"
  let ?docs = "retrieve vs query ?qt 15"
  have ns: "\<forall>d \<in> set ?docs. metadata d ''score'' = None"
    using assms(2) by (rule retrieve_no_score)
  then have l: "log_initial_docs ?docs = None"
    by (rule log_initial_docs_no_score)
  from ns obtain ranked where r: "rerank_documents lib ?docs query ?qt = Inr ranked"
    using rerank_documents_no_score by blast
  show ?thesis
    using assms(1) l r by (simp add: answer_query_def Let_def)
qed

text \<open>
  Claim C9, as amended.  \<open>answer_query\<close> raises the \<open>RuntimeError\<close> ``Vectorstore not
  initialized'' when no index has been built or loaded, and never when one is present.  The
  query text is not a precondition of \<open>answer_query\<close>: with an index loaded whose chunks
  carry no \<open>score\<close> entry (the chunks this pipeline indexes have none), every query, the
  empty one included, runs through the pipeline and a list is returned.
\<close>

theorem answer_query_requires_index:
  "(vectorstore self = None \<longrightarrow> answer_query lib self query = (Inl not_initialized, self))
   \<and> (vectorstore self \<noteq> None \<longrightarrow> fst (answer_query lib self query) \<noteq> Inl not_initialized)
   \<and> (\<forall>vs. vectorstore self = Some vs
          \<and> (\<forall>results. vs query 15 = Inr results \<longrightarrow>
                (\<forall>r \<in> set results. metadata (fst r) ''score'' = None)) \<longrightarrow>
          (\<exists>specs. fst (answer_query lib self query) = Inr specs))"
  using answer_query_no_index [of self lib query] answer_query_with_index [of self _ lib query]
    answer_query_returns [of self _ query lib]
  by (intro conjI impI allI) auto

lemma ex_extract_specs: "extract_specs ex_lib query context query_type = []"
  by (simp add: extract_specs_def extract_specs_try_def ex_lib_def)

lemma ex_index_no_score:
  "\<forall>results. ex_index query 15 = Inr results \<longrightarrow>
     (\<forall>r \<in> set results. metadata (fst r) ''score'' = None)"
  by (simp add: ex_index_def ex_no_score_key)

text \<open>
  Claim C9 as stated fails for the empty query: with an index loaded, \<open>answer_query\<close> on
  the empty string raises nothing and returns the empty list.
\<close>

theorem answer_query_empty_query_counterexample:
  "vectorstore ex_processor = Some ex_index
   \<and> fst (answer_query ex_lib ex_processor []) = Inr []"
proof -
  have vs: "vectorstore ex_processor = Some ex_index"
    by (simp add: ex_processor_def)
  from answer_query_returns [OF vs ex_index_no_score, of ex_lib]
  obtain specs where "fst (answer_query ex_lib ex_processor []) = Inr specs" by blast
  moreover from this vs have "specs = dedup_specs []"
    by (auto simp: answer_query_def Let_def ex_extract_specs split: option.splits sum.splits)
  ultimately show ?thesis
    using vs by (simp add: dedup_specs_def)
qed

theorem answer_query_requires_index_witness:
  "vectorstore ex_fresh_processor = None
   \<and> answer_query ex_lib ex_fresh_processor ''rear caliper bolt torque''
       = (Inl not_initialized, ex_fresh_processor)
   \<and> vectorstore ex_processor \<noteq> None
   \<and> fst (answer_query ex_lib ex_processor ''rear caliper bolt torque'') \<noteq> Inl not_initialized
   \<and> (\<exists>specs. fst (answer_query ex_lib ex_processor []) = Inr specs)"
proof -
  have none: "vectorstore ex_fresh_processor = None"
    by (simp add: ex_fresh_processor_def)
  have some: "vectorstore ex_processor = Some ex_index"
    by (simp add: ex_processor_def)
  from answer_query_requires_index [of ex_fresh_processor ex_lib "''rear caliper bolt torque''"]
       answer_query_requires_index [of ex_processor ex_lib "''rear caliper bolt torque''"]
       answer_query_requires_index [of ex_processor ex_lib "[]"]
       none some ex_index_no_score [of "[]"]
  show ?thesis
    by auto
qed

section \<open>Properties of the extraction engine\<close>

text \<open>\<open>extract_specs\<close> raises nothing: an exception of its body gives the empty list.\<close>

lemma extract_specs_on_exception:
  "extract_specs_try lib query context query_type = Inl e \<Longrightarrow>
     extract_specs lib query context query_type = []"
  by (simp add: extract_specs_def)

lemma greedy_between_hd:
  "greedy_between opn cls raw = Some b \<Longrightarrow> \<exists>rest. b = opn # rest"
proof -
  assume g: "greedy_between opn cls raw = Some b"
  show ?thesis
  proof (cases "dropWhile (\<lambda>c. c \<noteq> opn) raw")
    case Nil
    with g show ?thesis by (simp add: greedy_between_def)
  next
    case (Cons c rest)
    then have "c = hd (dropWhile (\<lambda>c. c \<noteq> opn) raw)" by simp
    moreover have "dropWhile (\<lambda>c. c \<noteq> opn) raw \<noteq> []" using Cons by simp
    ultimately have "c = opn"
      using hd_dropWhile [of "\<lambda>c. c \<noteq> opn" raw] by simp
    with g Cons show ?thesis
      by (auto simp: greedy_between_def split: if_splits)
  qed
qed

lemma strip_Cons_nonspace:
  "\<not> isspace c \<Longrightarrow> strip (c # cs) = c # rev (dropWhile isspace (rev cs))"
  by (simp add: strip_def dropWhile_append3)

text \<open>
  Once the response holds an opening brace with a closing brace after it, the block that
  is validated is the text from the first \<open>{\<close> to the last \<open>}\<close>; the branch that wraps a
  bare array is not taken.
\<close>

lemma extract_specs_try_object_first:
  assumes "generate lib (ExtractPrompt query_type query context) = Inr (Some t)"
    and "model_validate_json lib (strip t) = Inl e"
    and "greedy_between (CHR ''{'') (CHR ''}'') (strip t) = Some b"
  shows "extract_specs_try lib query context query_type = model_validate_json lib b"
proof -
  from greedy_between_hd [OF assms(3)] obtain rest where b: "b = CHR ''{'' # rest" by blast
  have "\<not> isspace (CHR ''{'')" by (simp add: isspace_def)
  then have "strip b = CHR ''{'' # rev (dropWhile isspace (rev rest))"
    unfolding b by (rule strip_Cons_nonspace)
  then have "\<not> startswith (strip b) ''[''"
    by (simp add: startswith_def)
  with assms show ?thesis
    by (simp add: extract_specs_try_def extract_json_block_def Let_def)
qed

lemma ex_array_response_strip: "strip ex_array_response = ex_array_response"
  by (simp add: ex_array_response_def strip_def isspace_def)

lemma ex_object_match:
  "greedy_between (CHR ''{'') (CHR ''}'') ex_array_response = Some ex_inner_object"
  by (simp add: greedy_between_def ex_array_response_def ex_inner_object_def)

lemma validate_ex_item: "validate_SpecItem lib ex_item_json = Some ex_item"
  by (simp add: validate_SpecItem_def ex_item_json_def ex_item_def)

text \<open>
  Claim C2, evaluated on the code.  The model answers with narrative text followed by the
  bare array \<open>[{"component":"X","value":"1","unit":""}]\<close>.  For every JSON reader that
  rejects the whole response and reads the object inside the array as what it is, the
  block taken from the response is that object, not the array (the pattern for objects is
  tried first and matches inside the array); it has no \<open>specs\<close> key, validation fails and
  \<open>extract_specs\<close> returns the empty list.  Wrapping the array, as the claim describes,
  would have given the one item.
\<close>

theorem extract_specs_array_in_narrative:
  assumes "generate lib (ExtractPrompt query_type query context) = Inr (Some ex_array_response)"
    and "from_json lib ex_array_response = None"
    and "from_json lib ex_inner_object = Some ex_item_json"
  shows "extract_json_block (strip ex_array_response) = Some ex_inner_object
       \<and> extract_specs lib query context query_type = []
       \<and> validate_SpecList lib (JObject [(''specs'', JArray [ex_item_json])]) = Some [ex_item]"
proof -
  have direct: "model_validate_json lib (strip ex_array_response) = Inl ValidationError"
    using assms(2) by (simp add: model_validate_json_def ex_array_response_strip)
  have block: "greedy_between (CHR ''{'') (CHR ''}'') (strip ex_array_response)
                 = Some ex_inner_object"
    by (simp add: ex_array_response_strip ex_object_match)
  have inner: "model_validate_json lib ex_inner_object = Inl ValidationError"
    using assms(3)
    by (simp add: model_validate_json_def validate_SpecList_def ex_item_json_def)
  have "extract_specs_try lib query context query_type = Inl ValidationError"
    using extract_specs_try_object_first [OF assms(1) direct block] inner by simp
  then have "extract_specs lib query context query_type = []"
    by (simp add: extract_specs_def)
  moreover have "extract_json_block (strip ex_array_response) = Some ex_inner_object"
    using block by (simp add: extract_json_block_def)
  moreover have "validate_SpecList lib (JObject [(''specs'', JArray [ex_item_json])])
                   = Some [ex_item]"
    by (simp add: validate_SpecList_def validate_ex_item)
  ultimately show ?thesis by simp
qed

theorem extract_specs_array_in_narrative_witness:
  "generate ex_json_lib (ExtractPrompt ''spec'' ''torque of X'' ''context'')
     = Inr (Some ex_array_response)
   \<and> from_json ex_json_lib ex_array_response = None
   \<and> from_json ex_json_lib ex_inner_object = Some ex_item_json
   \<and> extract_specs ex_json_lib ''torque of X'' ''context'' ''spec'' = []"
proof -
  have g: "generate ex_json_lib (ExtractPrompt ''spec'' ''torque of X'' ''context'')
     = Inr (Some ex_array_response)"
    by (simp add: ex_json_lib_def)
  have n: "from_json ex_json_lib ex_array_response = None"
    by (simp add: ex_json_lib_def ex_array_response_def ex_inner_object_def)
  have p: "from_json ex_json_lib ex_inner_object = Some ex_item_json"
    by (simp add: ex_json_lib_def)
  from extract_specs_array_in_narrative [OF g n p] g n p show ?thesis
    by simp
qed

section \<open>Deduplication of the answer\<close>

lemma same_spec_key: "same_spec a b \<longleftrightarrow> spec_key a = spec_key b"
  by (simp add: same_spec_def spec_key_eq_upto_case)

text \<open>The list \<open>answer_query\<close> returns is the deduplication of the list extracted from the
  context it stored.\<close>

lemma answer_query_result:
  assumes "fst (answer_query lib self query) = Inr out"
  shows "out = dedup_specs
                 (extract_specs lib query (last_context (snd (answer_query lib self query)))
                    (QueryType_value (fst (classify_query lib query))))"
  using assms
  by (auto simp: answer_query_def Let_def split: option.splits sum.splits)

text \<open>
  Claim C4.  Let \<open>answer_query\<close> return the list \<open>out\<close>, and let \<open>specs\<close> be the list
  extracted for the query from the context it assembled.  Then \<open>out\<close> is the
  deduplication of \<open>specs\<close>; no two entries of \<open>out\<close> are the same specification up to
  letter case; and for two items \<open>a\<close> and \<open>b\<close> of \<open>specs\<close> that are the same specification up
  to letter case, \<open>out\<close> holds an entry \<open>e\<close> that agrees with both up to case on
  \<open>component\<close>, \<open>value\<close> and \<open>unit\<close> and is their last occurrence: \<open>e\<close> stands in
  \<open>specs\<close> and no item after it is the same specification up to case.
\<close>

theorem answer_query_dedup_keeps_last:
  assumes "fst (answer_query lib self query) = Inr out"
    and "specs = extract_specs lib query (last_context (snd (answer_query lib self query)))
                   (QueryType_value (fst (classify_query lib query)))"
    and "a \<in> set specs"
    and "b \<in> set specs"
    and "same_spec a b"
  shows "out = dedup_specs specs
       \<and> (\<forall>i j. i < j \<and> j < length out \<longrightarrow> \<not> same_spec (out ! i) (out ! j))
       \<and> (\<exists>e pre post.
             e \<in> set out
           \<and> same_spec e a \<and> same_spec e b
           \<and> specs = pre @ e # post
           \<and> (\<forall>x \<in> set post. \<not> same_spec x e))"
proof -
  have out: "out = dedup_specs specs"
    unfolding assms(2) using assms(1) by (rule answer_query_result)
  let ?al = "fold (\<lambda>s unique. AList.update (spec_key s) s unique) specs []"
  note inv = dedup_fold_invariant [of specs]
  have al: "out = map snd ?al"
    by (simp add: out dedup_specs_def)
  have keyed: "map spec_key out = map fst ?al"
    unfolding al using inv by auto
  then have dist: "distinct (map spec_key out)"
    using inv by simp
  have apart: "\<not> same_spec (out ! i) (out ! j)" if "i < j" and "j < length out" for i j
  proof
    assume "same_spec (out ! i) (out ! j)"
    then have same: "spec_key (out ! i) = spec_key (out ! j)"
      by (simp add: same_spec_key)
    from that have lt: "i < length (map spec_key out)" "j < length (map spec_key out)" "i \<noteq> j"
      by simp_all
    from dist lt have "map spec_key out ! i \<noteq> map spec_key out ! j"
      unfolding distinct_conv_nth by blast
    with same that show False
      by simp
  qed
  have ab: "spec_key a = spec_key b"
    using assms(5) by (simp add: same_spec_key)
  from assms(3) inv have "spec_key a \<in> fst ` set ?al" by blast
  then obtain e where e: "(spec_key a, e) \<in> set ?al" by force
  with inv obtain pre post where ke: "spec_key e = spec_key a" and sp: "specs = pre @ e # post"
    and after: "\<forall>x \<in> set post. spec_key x \<noteq> spec_key a"
    by blast
  from e have mem: "e \<in> set out"
    unfolding al by force
  have "same_spec e a" and "same_spec e b"
    using ke ab by (simp_all add: same_spec_key)
  moreover have "\<forall>x \<in> set post. \<not> same_spec x e"
    using after ke by (simp add: same_spec_key)
  ultimately have "\<exists>e pre post.
             e \<in> set out
           \<and> same_spec e a \<and> same_spec e b
           \<and> specs = pre @ e # post
           \<and> (\<forall>x \<in> set post. \<not> same_spec x e)"
    using mem sp by blast
  with out apart show ?thesis
    by blast
qed

lemma ex_validate_specs:
  "validate_SpecList ex_specs_lib ex_specs_json = Some [ex_spec_upper, ex_spec_other, ex_spec_lower]"
  by (simp add: validate_SpecList_def validate_SpecItem_def ex_specs_json_def ex_specs_lib_def
        ex_lib_def ex_spec_upper_def ex_spec_other_def ex_spec_lower_def)

lemma ex_specs_strip: "strip ex_specs_response = ex_specs_response"
  by (simp add: strip_Cons_nonspace ex_specs_response_def isspace_def)

lemma ex_extract_three:
  "extract_specs ex_specs_lib query context query_type
     = [ex_spec_upper, ex_spec_other, ex_spec_lower]"
proof -
  have g: "generate ex_specs_lib (ExtractPrompt query_type query context)
             = Inr (Some ex_specs_response)"
    by (simp add: ex_specs_lib_def)
  have p: "from_json ex_specs_lib ex_specs_response = Some ex_specs_json"
    by (simp add: ex_specs_lib_def)
  show ?thesis
    by (simp add: extract_specs_def extract_specs_try_def g ex_specs_strip
          model_validate_json_def p ex_validate_specs)
qed

theorem answer_query_dedup_keeps_last_witness:
  "fst (answer_query ex_specs_lib ex_processor ''rear caliper bolt torque'')
     = Inr [ex_spec_lower, ex_spec_other]
   \<and> extract_specs ex_specs_lib ''rear caliper bolt torque''
         (last_context (snd (answer_query ex_specs_lib ex_processor ''rear caliper bolt torque'')))
         (QueryType_value (fst (classify_query ex_specs_lib ''rear caliper bolt torque'')))
       = [ex_spec_upper, ex_spec_other, ex_spec_lower]
   \<and> same_spec ex_spec_upper ex_spec_lower
   \<and> \<not> same_spec ex_spec_lower ex_spec_other"
proof -
  let ?q = "''rear caliper bolt torque''"
  let ?specs = "[ex_spec_upper, ex_spec_other, ex_spec_lower]"
  have vs: "vectorstore ex_processor = Some ex_index"
    by (simp add: ex_processor_def)
  from answer_query_returns [OF vs ex_index_no_score, of ex_specs_lib]
  obtain out where o: "fst (answer_query ex_specs_lib ex_processor ?q) = Inr out" by blast
  have x: "?specs = extract_specs ex_specs_lib ?q
         (last_context (snd (answer_query ex_specs_lib ex_processor ?q)))
         (QueryType_value (fst (classify_query ex_specs_lib ?q)))"
    by (simp add: ex_extract_three)
  have a: "ex_spec_upper \<in> set ?specs" and b: "ex_spec_lower \<in> set ?specs"
    by simp_all
  have ab: "same_spec ex_spec_upper ex_spec_lower"
    by (simp add: same_spec_def ex_upper_lower_case)
  from answer_query_dedup_keeps_last [OF o x a b ab]
  have out: "out = dedup_specs ?specs"
    and apart: "\<forall>i j. i < j \<and> j < length out \<longrightarrow> \<not> same_spec (out ! i) (out ! j)"
    by blast+
  from out have out': "out = [ex_spec_lower, ex_spec_other]"
    by (simp add: ex_dedup)
  have "(0::nat) < 1 \<and> 1 < length out"
    by (simp add: out')
  with apart have "\<not> same_spec (out ! 0) (out ! 1)"
    by blast
  then have "\<not> same_spec ex_spec_lower ex_spec_other"
    by (simp add: out')
  with o out' x ab show ?thesis
    by simp
qed

end
